theory Spec2Isabelle
  imports Complex_Main "HOL-Library.Multiset"
begin

section \<open>card.py\<close>

text \<open>
  The enums \<^verbatim>\<open>Suit\<close> and \<^verbatim>\<open>Rank\<close> and the dataclass \<^verbatim>\<open>Card\<close>. The attribute
  \<^verbatim>\<open>value\<close> is set once in \<^verbatim>\<open>__post_init__\<close> from the rank and never assigned again,
  so it is the function \<open>card_value\<close> of the card.
\<close>

datatype Suit = HEARTS | CLUBS | DIAMONDS | SPADES

datatype Rank = TWO | THREE | FOUR | FIVE | SIX | SEVEN | EIGHT | NINE | TEN
  | JACK | QUEEN | KING | ACE

fun rank_value :: "Rank \<Rightarrow> int" where
  "rank_value TWO = 2"
| "rank_value THREE = 3"
| "rank_value FOUR = 4"
| "rank_value FIVE = 5"
| "rank_value SIX = 6"
| "rank_value SEVEN = 7"
| "rank_value EIGHT = 8"
| "rank_value NINE = 9"
| "rank_value TEN = 10"
| "rank_value JACK = 11"
| "rank_value QUEEN = 12"
| "rank_value KING = 13"
| "rank_value ACE = 14"

record Card =
  suit :: Suit
  rank :: Rank

definition card_value :: "Card \<Rightarrow> int" where
  "card_value c = rank_value (rank c)"

definition get_numeric_value :: "Card \<Rightarrow> int" where
  "get_numeric_value c = card_value c"

text \<open>\<^verbatim>\<open>Card.__eq__\<close>: equal rank values; the suit is not looked at.\<close>

definition card_eq :: "Card \<Rightarrow> Card \<Rightarrow> bool" where
  "card_eq a b \<longleftrightarrow> card_value a = card_value b"

definition card_gt :: "Card \<Rightarrow> Card \<Rightarrow> bool" where
  "card_gt a b \<longleftrightarrow> card_value a > card_value b"

definition card_lt :: "Card \<Rightarrow> Card \<Rightarrow> bool" where
  "card_lt a b \<longleftrightarrow> card_value a < card_value b"

section \<open>Python lists of cards\<close>

datatype exn = ValueError | AttributeError | TypeError

text \<open>
  \<^verbatim>\<open>list.remove(x)\<close>: deletes the first item that compares equal to \<open>x\<close> (with
  \<^verbatim>\<open>Card.__eq__\<close>), and raises \<^verbatim>\<open>ValueError\<close> when there is none.
\<close>

fun list_remove :: "Card list \<Rightarrow> Card \<Rightarrow> exn + Card list" where
  "list_remove [] c = Inl ValueError"
| "list_remove (x # xs) c =
     (if card_eq x c then Inr xs
      else (case list_remove xs c of Inl e \<Rightarrow> Inl e | Inr ys \<Rightarrow> Inr (x # ys)))"

text \<open>
  \<^verbatim>\<open>d[k] = v\<close> on a dictionary kept as an association list in insertion order: an
  existing key keeps its place and gets the new value, a new key goes to the end.
\<close>

fun dict_set :: "('k \<times> 'v) list \<Rightarrow> 'k \<Rightarrow> 'v \<Rightarrow> ('k \<times> 'v) list" where
  "dict_set [] k v = [(k, v)]"
| "dict_set (x # xs) k v = (if fst x = k then (k, v) # xs else x # dict_set xs k v)"

text \<open>\<^verbatim>\<open>x in list\<close>, again with \<^verbatim>\<open>Card.__eq__\<close>.\<close>

definition list_contains :: "Card list \<Rightarrow> Card \<Rightarrow> bool" where
  "list_contains xs c = list_ex (\<lambda>x. card_eq x c) xs"

section \<open>player.py\<close>

text \<open>
  The state of a \<^verbatim>\<open>Player\<close>. The bidding method \<^verbatim>\<open>make_bid\<close> is abstract in the
  base class; it is a parameter of the game below. The \<^verbatim>\<open>metadata\<close> dictionary is
  read by no method that is modelled here.
\<close>

record Player =
  name :: string
  player_suit :: Suit
  hand :: "Card list"
  won_cards :: "Card list"

definition add_card :: "Player \<Rightarrow> Card \<Rightarrow> Player" where
  "add_card p c = p\<lparr>hand := hand p @ [c]\<rparr>"

definition remove_card :: "Player \<Rightarrow> Card \<Rightarrow> bool \<times> Player" where
  "remove_card p c =
     (case list_remove (hand p) c of
        Inr h \<Rightarrow> (True, p\<lparr>hand := h\<rparr>)
      | Inl e \<Rightarrow> (False, p))"

definition add_won_card :: "Player \<Rightarrow> Card \<Rightarrow> Player" where
  "add_won_card p c = p\<lparr>won_cards := won_cards p @ [c]\<rparr>"

definition get_score :: "Player \<Rightarrow> int" where
  "get_score p = sum_list (map get_numeric_value (won_cards p))"

definition has_cards :: "Player \<Rightarrow> bool" where
  "has_cards p \<longleftrightarrow> length (hand p) > 0"

definition can_bid :: "Player \<Rightarrow> Card \<Rightarrow> bool" where
  "can_bid p c = list_contains (hand p) c"

section \<open>deck.py\<close>

record Deck =
  cards :: "Card list"

definition is_empty :: "Deck \<Rightarrow> bool" where
  "is_empty d \<longleftrightarrow> length (cards d) = 0"

text \<open>\<^verbatim>\<open>draw_card\<close>: \<^verbatim>\<open>list.pop()\<close> takes the last item of the list.\<close>

definition draw_card :: "Deck \<Rightarrow> Card option \<times> Deck" where
  "draw_card d =
     (if is_empty d then (None, d)
      else (Some (last (cards d)), d\<lparr>cards := butlast (cards d)\<rparr>))"

section \<open>auction.py\<close>

text \<open>
  A \<^verbatim>\<open>Player\<close> defines neither \<^verbatim>\<open>__eq__\<close> nor \<^verbatim>\<open>__hash__\<close>, so the dictionary
  \<^verbatim>\<open>bids\<close> is keyed by object identity. A player is referred to by its position in
  \<^verbatim>\<open>Game.players\<close>, and the dictionary is an association list in insertion order, which is
  the order Python iterates it in.
\<close>

datatype AuctionResult = WINNER_DETERMINED | TIE_SPLIT | TIE_CARRY_FORWARD

record Auction =
  current_diamond :: "Card option"
  bids :: "(nat \<times> Card) list"
  tie_handling_method :: string
  auction_round_number :: int

definition start_auction :: "Auction \<Rightarrow> Card \<Rightarrow> int \<Rightarrow> Auction" where
  "start_auction a diamond_card rn =
     a\<lparr>current_diamond := Some diamond_card, bids := [], auction_round_number := rn\<rparr>"

definition place_bid :: "Auction \<Rightarrow> nat \<Rightarrow> Card \<Rightarrow> bool \<times> Auction" where
  "place_bid a player c =
     (if player \<in> set (map fst (bids a)) then (False, a)
      else (True, a\<lparr>bids := dict_set (bids a) player c\<rparr>))"

definition get_all_bids :: "Auction \<Rightarrow> (nat \<times> Card) list" where
  "get_all_bids a = bids a"

definition clear_bids :: "Auction \<Rightarrow> Auction" where
  "clear_bids a = a\<lparr>bids := []\<rparr>"

text \<open>
  \<^verbatim>\<open>sorted(..., key=..., reverse=True)\<close> is a stable sort into descending key order:
  items with equal keys keep their order. \<open>sort_key\<close> is stable too, so sorting by the
  negated value is the same list.
\<close>

definition sorted_bids_of :: "(nat \<times> Card) list \<Rightarrow> (nat \<times> Card) list" where
  "sorted_bids_of bs = sort_key (\<lambda>x. - get_numeric_value (snd x)) bs"

definition determine_winner :: "Auction \<Rightarrow> AuctionResult \<times> nat option \<times> nat list option" where
  "determine_winner a =
     (if length (bids a) < 2 then (WINNER_DETERMINED, None, None)
      else
        let sorted_bids = sorted_bids_of (bids a);
            highest_value = get_numeric_value (snd (sorted_bids ! 0));
            tied_players = map fst (filter (\<lambda>x. get_numeric_value (snd x) = highest_value) sorted_bids)
        in if length tied_players > 1 then
             (if tie_handling_method a = ''split'' then (TIE_SPLIT, None, Some tied_players)
              else (TIE_CARRY_FORWARD, None, Some tied_players))
           else (WINNER_DETERMINED, Some (fst (sorted_bids ! 0)), Some [fst (sorted_bids ! 0)]))"

text \<open>
  The dictionary returned by \<^verbatim>\<open>resolve_auction\<close>. Its entry \<^verbatim>\<open>result_type\<close> holds
  \<^verbatim>\<open>None\<close>, one of the strings \<^verbatim>\<open>'no_bids'\<close> and \<^verbatim>\<open>'insufficient_bids'\<close>, or a member
  of \<^verbatim>\<open>AuctionResult\<close>. The split value is a Python float (\<^verbatim>\<open>/\<close> on two ints); it is
  kept here as the exact quotient.
\<close>

datatype ResultType = RT_None | RT_no_bids | RT_insufficient_bids | RT AuctionResult

record AuctionOutcome =
  ar_diamond_card :: "Card option"
  ar_bids :: "(nat \<times> Card) list"
  ar_result_type :: ResultType
  ar_winner :: "nat option"
  ar_tied_players :: "nat list option"
  ar_diamond_awarded :: bool
  ar_carry_forward :: bool
  ar_split_values :: "(nat \<times> rat) list"

text \<open>
  \<^verbatim>\<open>{player: split_value for player in tied_players}\<close>: one assignment per item
  of the list, in order.
\<close>

definition split_dict :: "nat list \<Rightarrow> rat \<Rightarrow> (nat \<times> rat) list" where
  "split_dict tied v = foldl (\<lambda>d p. dict_set d p v) [] tied"

definition resolve_auction :: "Auction \<Rightarrow> exn + AuctionOutcome" where
  "resolve_auction a =
     (let result = \<lparr>ar_diamond_card = current_diamond a, ar_bids = bids a,
                     ar_result_type = RT_None, ar_winner = None, ar_tied_players = Some [],
                     ar_diamond_awarded = False, ar_carry_forward = False,
                     ar_split_values = []\<rparr>
      in if bids a = [] then Inr (result\<lparr>ar_result_type := RT_no_bids\<rparr>)
         else
           (case determine_winner a of (auction_result, winner, tied_players) \<Rightarrow>
              let result = result\<lparr>ar_result_type := RT auction_result, ar_winner := winner,
                                  ar_tied_players := tied_players\<rparr>
              in (case auction_result of
                    WINNER_DETERMINED \<Rightarrow>
                      (if winner \<noteq> None then Inr (result\<lparr>ar_diamond_awarded := True\<rparr>)
                       else Inr (result\<lparr>ar_result_type := RT_insufficient_bids\<rparr>))
                  | TIE_SPLIT \<Rightarrow>
                      (case current_diamond a of
                         None \<Rightarrow> Inl AttributeError
                       | Some d \<Rightarrow>
                           (case tied_players of
                              None \<Rightarrow> Inl TypeError
                            | Some tied \<Rightarrow>
                                let split_value =
                                      of_int (get_numeric_value d) / of_nat (length tied)
                                in Inr (result\<lparr>ar_diamond_awarded := True,
                                          ar_split_values := split_dict tied split_value\<rparr>)))
                  | TIE_CARRY_FORWARD \<Rightarrow>
                      Inr (result\<lparr>ar_carry_forward := True, ar_diamond_awarded := False\<rparr>))))"

section \<open>game.py\<close>

text \<open>
  The dictionary \<^verbatim>\<open>round_result\<close> that \<^verbatim>\<open>play_round\<close> builds, returns and appends to the
  history, and the dictionary \<^verbatim>\<open>{'error': ...}\<close> it returns instead when the game is over.
\<close>

record RoundResult =
  rr_round_number :: int
  rr_diamond_card :: "Card option"
  rr_bids :: "(nat \<times> Card) list"
  rr_result :: "AuctionOutcome option"
  rr_winner :: "nat option"
  rr_carry_forward :: bool
  rr_game_over :: bool

datatype RoundReturn = ErrorDict string | RoundDict RoundResult

record Game =
  players :: "Player list"
  auction_suits :: "Suit list"
  deck :: Deck
  auction :: Auction
  round_number :: int
  max_rounds :: int
  game_over :: bool
  carry_forward_diamonds :: "Card list"
  tie_handling :: string
  game_history :: "RoundResult list"

text \<open>
  \<^verbatim>\<open>Player.make_bid(auction_card, game_state)\<close> is abstract: a human types the bid, a
  computer player may draw it at random. It is a parameter: for the player at a position,
  the auction card and the dictionary \<^verbatim>\<open>{'round', 'players', 'game_history'}\<close> it gives
  the bid or \<^verbatim>\<open>None\<close>. Nothing is assumed about the card it returns.
\<close>

record BidState =
  bs_round :: int
  bs_players :: "Player list"
  bs_game_history :: "RoundResult list"

type_synonym Strategy = "nat \<Rightarrow> Card option \<Rightarrow> BidState \<Rightarrow> Card option"

text \<open>
  \<^verbatim>\<open>_get_auction_card\<close>: \<^verbatim>\<open>pop(0)\<close> takes the first item of the carry-forward list.
\<close>

definition get_auction_card :: "Game \<Rightarrow> Card option \<times> Game" where
  "get_auction_card g =
     (case carry_forward_diamonds g of
        c # rest \<Rightarrow> (Some c, g\<lparr>carry_forward_diamonds := rest\<rparr>)
      | [] \<Rightarrow> (case draw_card (deck g) of (c, d) \<Rightarrow> (c, g\<lparr>deck := d\<rparr>)))"

text \<open>
  \<^verbatim>\<open>_collect_bids\<close>: one pass over the players in list order. A \<^verbatim>\<open>Card\<close> has neither
  \<^verbatim>\<open>__bool__\<close> nor \<^verbatim>\<open>__len__\<close>, so \<^verbatim>\<open>if bid:\<close> is the test for \<^verbatim>\<open>None\<close>. The value
  \<^verbatim>\<open>place_bid\<close> returns is dropped.
\<close>

definition collect_step :: "Strategy \<Rightarrow> Game \<Rightarrow> Auction \<Rightarrow> nat \<Rightarrow> Auction" where
  "collect_step make_bid g a i =
     (if \<not> has_cards (players g ! i) then a
      else
        (case make_bid i (current_diamond a)
                \<lparr>bs_round = round_number g, bs_players = players g,
                 bs_game_history = game_history g\<rparr> of
           None \<Rightarrow> a
         | Some bid \<Rightarrow> snd (place_bid a i bid)))"

definition collect_bids :: "Strategy \<Rightarrow> Game \<Rightarrow> Game" where
  "collect_bids make_bid g =
     g\<lparr>auction := foldl (collect_step make_bid g) (auction g) [0..<length (players g)]\<rparr>"

text \<open>
  The lists \<^verbatim>\<open>won_cards\<close> and \<^verbatim>\<open>carry_forward_diamonds\<close> hold cards only. The source
  would append \<^verbatim>\<open>None\<close> to them when the auction was never started; \<^verbatim>\<open>play_round\<close>
  always starts it first. The model stops there with the \<^verbatim>\<open>AttributeError\<close> that the
  next read of such an item raises.
\<close>

definition award :: "Player list \<Rightarrow> nat \<Rightarrow> Card option \<Rightarrow> exn + Player list" where
  "award ps p d =
     (case d of
        None \<Rightarrow> Inl AttributeError
      | Some c \<Rightarrow> Inr (ps[p := add_won_card (ps ! p) c]))"

fun award_each :: "Player list \<Rightarrow> (nat \<times> rat) list \<Rightarrow> Card option \<Rightarrow> exn + Player list" where
  "award_each ps [] d = Inr ps"
| "award_each ps ((p, points) # rest) d =
     (case award ps p d of Inl e \<Rightarrow> Inl e | Inr ps' \<Rightarrow> award_each ps' rest d)"

definition process_auction_results :: "Game \<Rightarrow> AuctionOutcome \<Rightarrow> exn + Game" where
  "process_auction_results g auction_result =
     (if ar_result_type auction_result = RT WINNER_DETERMINED then
        (case ar_winner auction_result of
           None \<Rightarrow> Inl AttributeError
         | Some winner \<Rightarrow>
             (case award (players g) winner (ar_diamond_card auction_result) of
                Inl e \<Rightarrow> Inl e
              | Inr ps \<Rightarrow> Inr (g\<lparr>players := ps\<rparr>)))
      else if ar_result_type auction_result = RT TIE_SPLIT then
        (case award_each (players g) (ar_split_values auction_result)
                (ar_diamond_card auction_result) of
           Inl e \<Rightarrow> Inl e
         | Inr ps \<Rightarrow> Inr (g\<lparr>players := ps\<rparr>))
      else Inr g)"

fun remove_each :: "Player list \<Rightarrow> (nat \<times> Card) list \<Rightarrow> Player list" where
  "remove_each ps [] = ps"
| "remove_each ps ((p, c) # rest) = remove_each (ps[p := snd (remove_card (ps ! p) c)]) rest"

definition remove_bid_cards :: "Game \<Rightarrow> (nat \<times> Card) list \<Rightarrow> Game" where
  "remove_bid_cards g bs = g\<lparr>players := remove_each (players g) bs\<rparr>"

definition should_end_game :: "Game \<Rightarrow> bool" where
  "should_end_game g = list_all (\<lambda>player. \<not> has_cards player) (players g)"

text \<open>
  What \<^verbatim>\<open>play_round\<close> does once an auction card is there: start the auction, collect
  the bids, resolve, process the result, queue a carried card, remove the bid cards,
  clear the bids and append to the history.
\<close>

definition run_auction ::
  "Strategy \<Rightarrow> Game \<Rightarrow> RoundResult \<Rightarrow> Card \<Rightarrow> exn + (RoundReturn \<times> Game)" where
  "run_auction make_bid g2 rr0 auction_card =
     (let rr1 = rr0\<lparr>rr_diamond_card := Some auction_card\<rparr>;
          g3 = g2\<lparr>auction := start_auction (auction g2) auction_card (round_number g2)\<rparr>;
          g4 = collect_bids make_bid g3;
          rr2 = rr1\<lparr>rr_bids := get_all_bids (auction g4)\<rparr>
      in (case resolve_auction (auction g4) of
            Inl e \<Rightarrow> Inl e
          | Inr auction_result \<Rightarrow>
              let rr3 = rr2\<lparr>rr_result := Some auction_result\<rparr>
              in (case process_auction_results g4 auction_result of
                    Inl e \<Rightarrow> Inl e
                  | Inr g5 \<Rightarrow>
                      (case (if ar_winner auction_result \<noteq> None
                             then Inr (rr3\<lparr>rr_winner := ar_winner auction_result\<rparr>, g5)
                             else if ar_carry_forward auction_result
                             then (case ar_diamond_card auction_result of
                                     None \<Rightarrow> Inl AttributeError
                                   | Some d \<Rightarrow>
                                       Inr (rr3\<lparr>rr_carry_forward := True\<rparr>,
                                            g5\<lparr>carry_forward_diamonds :=
                                                  carry_forward_diamonds g5 @ [d]\<rparr>))
                             else Inr (rr3, g5)) of
                         Inl e \<Rightarrow> Inl e
                       | Inr (rr4, g6) \<Rightarrow>
                           let g7 = remove_bid_cards g6 (ar_bids auction_result);
                               g8 = g7\<lparr>auction := clear_bids (auction g7)\<rparr>;
                               g9 = g8\<lparr>game_history := game_history g8 @ [rr4]\<rparr>
                           in Inr (RoundDict rr4, g9)))))"

definition play_round :: "Strategy \<Rightarrow> Game \<Rightarrow> exn + (RoundReturn \<times> Game)" where
  "play_round make_bid g =
     (if game_over g then Inr (ErrorDict ''Game is already over'', g)
      else
        let g1 = g\<lparr>round_number := round_number g + 1\<rparr>;
            rr0 = \<lparr>rr_round_number = round_number g1, rr_diamond_card = None, rr_bids = [],
                   rr_result = None, rr_winner = None, rr_carry_forward = False,
                   rr_game_over = False\<rparr>
        in if should_end_game g1
           then Inr (RoundDict (rr0\<lparr>rr_game_over := True\<rparr>), g1\<lparr>game_over := True\<rparr>)
           else
             (case get_auction_card g1 of
                (None, g2) \<Rightarrow>
                  Inr (RoundDict (rr0\<lparr>rr_game_over := True\<rparr>), g2\<lparr>game_over := True\<rparr>)
              | (Some auction_card, g2) \<Rightarrow> run_auction make_bid g2 rr0 auction_card))"

section \<open>Constructors and sample inputs\<close>

text \<open>\<^verbatim>\<open>Auction.__init__\<close> and \<^verbatim>\<open>Game.__init__\<close> (with the default auction suit).\<close>

definition new_auction :: Auction where
  "new_auction = \<lparr>current_diamond = None, bids = [], tie_handling_method = ''split'',
                   auction_round_number = 0\<rparr>"

definition new_game :: "Player list \<Rightarrow> Game" where
  "new_game ps = \<lparr>players = ps, auction_suits = [DIAMONDS], deck = \<lparr>cards = []\<rparr>,
                   auction = new_auction, round_number = 0, max_rounds = 13,
                   game_over = False, carry_forward_diamonds = [], tie_handling = ''split'',
                   game_history = []\<rparr>"

text \<open>
  What the player at position \<open>i\<close> is asked and answers in \<^verbatim>\<open>_collect_bids\<close>, and the
  bids gathered over a list of positions.
\<close>

definition requested_bid :: "Strategy \<Rightarrow> Game \<Rightarrow> Card option \<Rightarrow> nat \<Rightarrow> Card option" where
  "requested_bid make_bid g d i =
     (if \<not> has_cards (players g ! i) then None
      else make_bid i d \<lparr>bs_round = round_number g, bs_players = players g,
                          bs_game_history = game_history g\<rparr>)"

definition collected ::
  "Strategy \<Rightarrow> Game \<Rightarrow> Card option \<Rightarrow> nat list \<Rightarrow> (nat \<times> Card) list" where
  "collected make_bid g d js =
     List.map_filter (\<lambda>i. map_option (Pair i) (requested_bid make_bid g d i)) js"

text \<open>Two players holding hearts and clubs, and a pile of two diamonds.\<close>

definition alice :: Player where
  "alice = \<lparr>name = ''Human 1'', player_suit = HEARTS,
             hand = [\<lparr>suit = HEARTS, rank = KING\<rparr>, \<lparr>suit = HEARTS, rank = TWO\<rparr>],
             won_cards = []\<rparr>"

definition bob :: Player where
  "bob = \<lparr>name = ''Machine 2'', player_suit = CLUBS,
           hand = [\<lparr>suit = CLUBS, rank = QUEEN\<rparr>, \<lparr>suit = CLUBS, rank = THREE\<rparr>],
           won_cards = []\<rparr>"

definition two_diamonds :: Deck where
  "two_diamonds = \<lparr>cards = [\<lparr>suit = DIAMONDS, rank = TEN\<rparr>, \<lparr>suit = DIAMONDS, rank = ACE\<rparr>]\<rparr>"

definition sample_game :: Game where
  "sample_game = (new_game [alice, bob])\<lparr>deck := two_diamonds\<rparr>"

text \<open>A strategy that bids the first card of the hand, and one that always passes.\<close>

definition bid_first :: Strategy where
  "bid_first i d st = (case hand (bs_players st ! i) of [] \<Rightarrow> None | c # rest \<Rightarrow> Some c)"

definition bid_pass :: Strategy where
  "bid_pass i d st = None"

text \<open>The bids that \<^verbatim>\<open>_collect_bids\<close> gathers in a round on the auction card \<open>c\<close>.\<close>

definition round_bids :: "Strategy \<Rightarrow> Game \<Rightarrow> Card \<Rightarrow> (nat \<times> Card) list" where
  "round_bids mk g c = collected mk g (Some c) [0..<length (players g)]"

text \<open>
  The specification's words for the tie-break: the maximum bid value of a bid map, and the
  set of all participants whose bid value is that maximum.
\<close>

definition spec_max_bid :: "(nat \<times> Card) list \<Rightarrow> int" where
  "spec_max_bid bs = Max (set (map (\<lambda>x. get_numeric_value (snd x)) bs))"

definition spec_tied :: "(nat \<times> Card) list \<Rightarrow> nat set" where
  "spec_tied bs = set (map fst (filter (\<lambda>x. get_numeric_value (snd x) = spec_max_bid bs) bs))"

text \<open>Auctions on the ace of diamonds: a queen against a king, and two kings.\<close>

definition king_queen :: Auction where
  "king_queen = new_auction\<lparr>current_diamond := Some \<lparr>suit = DIAMONDS, rank = ACE\<rparr>,
       bids := [(0, \<lparr>suit = HEARTS, rank = QUEEN\<rparr>), (1, \<lparr>suit = CLUBS, rank = KING\<rparr>)]\<rparr>"

definition king_king :: Auction where
  "king_king = new_auction\<lparr>current_diamond := Some \<lparr>suit = DIAMONDS, rank = ACE\<rparr>,
       bids := [(0, \<lparr>suit = HEARTS, rank = KING\<rparr>), (1, \<lparr>suit = CLUBS, rank = KING\<rparr>)]\<rparr>"




text \<open>The dictionary \<^verbatim>\<open>round_result\<close> as \<^verbatim>\<open>play_round\<close> first builds it, in round \<open>n\<close>.\<close>

definition fresh_result :: "int \<Rightarrow> RoundResult" where
  "fresh_result n = \<lparr>rr_round_number = n, rr_diamond_card = None, rr_bids = [],
                   rr_result = None, rr_winner = None, rr_carry_forward = False,
                   rr_game_over = False\<rparr>"

text \<open>
  More sample inputs: a second player who also holds a king, and a strategy that returns
  spades, which no player holds: the ace for the first player, the queen for the others.
\<close>

definition carol :: Player where
  "carol = \<lparr>name = ''Human 2'', player_suit = CLUBS,
           hand = [\<lparr>suit = CLUBS, rank = KING\<rparr>, \<lparr>suit = CLUBS, rank = THREE\<rparr>],
           won_cards = []\<rparr>"

definition tie_game :: Game where
  "tie_game = (new_game [alice, carol])\<lparr>deck := two_diamonds\<rparr>"

definition bid_foreign :: Strategy where
  "bid_foreign i d st = Some \<lparr>suit = SPADES, rank = (if i = 0 then ACE else QUEEN)\<rparr>"

text \<open>
  The round that \<^verbatim>\<open>play_round\<close> returns, and the game it leaves, on the sample game with
  first-card bids (king against queen), on the game of two kings, and on the sample game
  with the bids in spades.
\<close>

definition first_outcome :: AuctionOutcome where
  "first_outcome =
     \<lparr>ar_diamond_card = Some \<lparr>suit = DIAMONDS, rank = ACE\<rparr>,
      ar_bids = [(0, \<lparr>suit = HEARTS, rank = KING\<rparr>), (1, \<lparr>suit = CLUBS, rank = QUEEN\<rparr>)],
      ar_result_type = RT WINNER_DETERMINED, ar_winner = Some 0, ar_tied_players = Some [0],
      ar_diamond_awarded = True, ar_carry_forward = False, ar_split_values = []\<rparr>"

definition first_round :: RoundResult where
  "first_round =
     \<lparr>rr_round_number = 1, rr_diamond_card = Some \<lparr>suit = DIAMONDS, rank = ACE\<rparr>,
      rr_bids = [(0, \<lparr>suit = HEARTS, rank = KING\<rparr>), (1, \<lparr>suit = CLUBS, rank = QUEEN\<rparr>)],
      rr_result = Some first_outcome, rr_winner = Some 0, rr_carry_forward = False,
      rr_game_over = False\<rparr>"

definition first_after :: Game where
  "first_after =
     sample_game\<lparr>players :=
         [alice\<lparr>hand := [\<lparr>suit = HEARTS, rank = TWO\<rparr>],
                won_cards := [\<lparr>suit = DIAMONDS, rank = ACE\<rparr>]\<rparr>,
          bob\<lparr>hand := [\<lparr>suit = CLUBS, rank = THREE\<rparr>]\<rparr>],
       deck := \<lparr>cards = [\<lparr>suit = DIAMONDS, rank = TEN\<rparr>]\<rparr>,
       auction := new_auction\<lparr>current_diamond := Some \<lparr>suit = DIAMONDS, rank = ACE\<rparr>,
                              auction_round_number := 1\<rparr>,
       round_number := 1, game_history := [first_round]\<rparr>"

definition tie_outcome :: AuctionOutcome where
  "tie_outcome =
     \<lparr>ar_diamond_card = Some \<lparr>suit = DIAMONDS, rank = ACE\<rparr>,
      ar_bids = [(0, \<lparr>suit = HEARTS, rank = KING\<rparr>), (1, \<lparr>suit = CLUBS, rank = KING\<rparr>)],
      ar_result_type = RT TIE_SPLIT, ar_winner = None, ar_tied_players = Some [0, 1],
      ar_diamond_awarded = True, ar_carry_forward = False, ar_split_values = [(0, 7), (1, 7)]\<rparr>"

definition tie_round :: RoundResult where
  "tie_round =
     \<lparr>rr_round_number = 1, rr_diamond_card = Some \<lparr>suit = DIAMONDS, rank = ACE\<rparr>,
      rr_bids = [(0, \<lparr>suit = HEARTS, rank = KING\<rparr>), (1, \<lparr>suit = CLUBS, rank = KING\<rparr>)],
      rr_result = Some tie_outcome, rr_winner = None, rr_carry_forward = False,
      rr_game_over = False\<rparr>"

definition tie_after :: Game where
  "tie_after =
     tie_game\<lparr>players :=
         [alice\<lparr>hand := [\<lparr>suit = HEARTS, rank = TWO\<rparr>],
                won_cards := [\<lparr>suit = DIAMONDS, rank = ACE\<rparr>]\<rparr>,
          carol\<lparr>hand := [\<lparr>suit = CLUBS, rank = THREE\<rparr>],
                won_cards := [\<lparr>suit = DIAMONDS, rank = ACE\<rparr>]\<rparr>],
       deck := \<lparr>cards = [\<lparr>suit = DIAMONDS, rank = TEN\<rparr>]\<rparr>,
       auction := new_auction\<lparr>current_diamond := Some \<lparr>suit = DIAMONDS, rank = ACE\<rparr>,
                              auction_round_number := 1\<rparr>,
       round_number := 1, game_history := [tie_round]\<rparr>"

definition foreign_outcome :: AuctionOutcome where
  "foreign_outcome =
     \<lparr>ar_diamond_card = Some \<lparr>suit = DIAMONDS, rank = ACE\<rparr>,
      ar_bids = [(0, \<lparr>suit = SPADES, rank = ACE\<rparr>), (1, \<lparr>suit = SPADES, rank = QUEEN\<rparr>)],
      ar_result_type = RT WINNER_DETERMINED, ar_winner = Some 0, ar_tied_players = Some [0],
      ar_diamond_awarded = True, ar_carry_forward = False, ar_split_values = []\<rparr>"

definition foreign_round :: RoundResult where
  "foreign_round =
     \<lparr>rr_round_number = 1, rr_diamond_card = Some \<lparr>suit = DIAMONDS, rank = ACE\<rparr>,
      rr_bids = [(0, \<lparr>suit = SPADES, rank = ACE\<rparr>), (1, \<lparr>suit = SPADES, rank = QUEEN\<rparr>)],
      rr_result = Some foreign_outcome, rr_winner = Some 0, rr_carry_forward = False,
      rr_game_over = False\<rparr>"

definition foreign_after :: Game where
  "foreign_after =
     sample_game\<lparr>players :=
         [alice\<lparr>won_cards := [\<lparr>suit = DIAMONDS, rank = ACE\<rparr>]\<rparr>,
          bob\<lparr>hand := [\<lparr>suit = CLUBS, rank = THREE\<rparr>]\<rparr>],
       deck := \<lparr>cards = [\<lparr>suit = DIAMONDS, rank = TEN\<rparr>]\<rparr>,
       auction := new_auction\<lparr>current_diamond := Some \<lparr>suit = DIAMONDS, rank = ACE\<rparr>,
                              auction_round_number := 1\<rparr>,
       round_number := 1, game_history := [foreign_round]\<rparr>"

text \<open>A game in which only the first player has cards left, and its first round.\<close>

definition lone_game :: Game where
  "lone_game = sample_game\<lparr>players := [alice, bob\<lparr>hand := []\<rparr>]\<rparr>"

definition lone_bid :: Auction where
  "lone_bid = new_auction\<lparr>current_diamond := Some \<lparr>suit = DIAMONDS, rank = ACE\<rparr>,
       bids := [(0, \<lparr>suit = HEARTS, rank = KING\<rparr>)], auction_round_number := 1\<rparr>"

definition lone_outcome :: AuctionOutcome where
  "lone_outcome =
     \<lparr>ar_diamond_card = Some \<lparr>suit = DIAMONDS, rank = ACE\<rparr>,
      ar_bids = [(0, \<lparr>suit = HEARTS, rank = KING\<rparr>)],
      ar_result_type = RT_insufficient_bids, ar_winner = None, ar_tied_players = None,
      ar_diamond_awarded = False, ar_carry_forward = False, ar_split_values = []\<rparr>"

definition lone_round :: RoundResult where
  "lone_round =
     \<lparr>rr_round_number = 1, rr_diamond_card = Some \<lparr>suit = DIAMONDS, rank = ACE\<rparr>,
      rr_bids = [(0, \<lparr>suit = HEARTS, rank = KING\<rparr>)],
      rr_result = Some lone_outcome, rr_winner = None, rr_carry_forward = False,
      rr_game_over = False\<rparr>"

definition lone_after :: Game where
  "lone_after =
     lone_game\<lparr>players := [alice\<lparr>hand := [\<lparr>suit = HEARTS, rank = TWO\<rparr>]\<rparr>, bob\<lparr>hand := []\<rparr>],
       deck := \<lparr>cards = [\<lparr>suit = DIAMONDS, rank = TEN\<rparr>]\<rparr>,
       auction := new_auction\<lparr>current_diamond := Some \<lparr>suit = DIAMONDS, rank = ACE\<rparr>,
                              auction_round_number := 1\<rparr>,
       round_number := 1, game_history := [lone_round]\<rparr>"

text \<open>The first round of the sample game when both players pass.\<close>

definition pass_outcome :: AuctionOutcome where
  "pass_outcome =
     \<lparr>ar_diamond_card = Some \<lparr>suit = DIAMONDS, rank = ACE\<rparr>, ar_bids = [],
      ar_result_type = RT_no_bids, ar_winner = None, ar_tied_players = Some [],
      ar_diamond_awarded = False, ar_carry_forward = False, ar_split_values = []\<rparr>"

definition pass_round :: RoundResult where
  "pass_round =
     \<lparr>rr_round_number = 1, rr_diamond_card = Some \<lparr>suit = DIAMONDS, rank = ACE\<rparr>,
      rr_bids = [], rr_result = Some pass_outcome, rr_winner = None,
      rr_carry_forward = False, rr_game_over = False\<rparr>"

definition pass_after :: Game where
  "pass_after =
     sample_game\<lparr>deck := \<lparr>cards = [\<lparr>suit = DIAMONDS, rank = TEN\<rparr>]\<rparr>,
       auction := new_auction\<lparr>current_diamond := Some \<lparr>suit = DIAMONDS, rank = ACE\<rparr>,
                              auction_round_number := 1\<rparr>,
       round_number := 1, game_history := [pass_round]\<rparr>"

section \<open>Cards and hands\<close>

lemma rank_value_inj: "rank_value a = rank_value b \<longleftrightarrow> a = b"
  by (cases a; cases b; simp)

lemma card_eq_rank: "card_eq x c \<longleftrightarrow> rank x = rank c"
  by (simp add: card_eq_def card_value_def rank_value_inj)

lemma list_remove_first:
  "list_remove xs c =
     (if \<exists>x\<in>set xs. rank x = rank c
      then Inr (takeWhile (\<lambda>x. rank x \<noteq> rank c) xs @ tl (dropWhile (\<lambda>x. rank x \<noteq> rank c) xs))
      else Inl ValueError)"
  by (induction xs) (auto simp: card_eq_rank)

lemma length_remove_first:
  "\<exists>x\<in>set xs. P x \<Longrightarrow>
   length (takeWhile (\<lambda>x. \<not> P x) xs @ tl (dropWhile (\<lambda>x. \<not> P x) xs)) + 1 = length xs"
  by (induction xs) auto

text \<open>
  Claim C10. \<^verbatim>\<open>Player.remove_card\<close> deletes the first card of the hand whose rank is the
  rank of the given card, whatever the suits, and returns true; the hand is then one card
  shorter. When no card of the hand has that rank it returns false and the player is as
  before.
\<close>

theorem remove_card_first_of_rank:
  "remove_card p c =
     (if \<exists>x\<in>set (hand p). rank x = rank c
      then (True, p\<lparr>hand := takeWhile (\<lambda>x. rank x \<noteq> rank c) (hand p)
                              @ tl (dropWhile (\<lambda>x. rank x \<noteq> rank c) (hand p))\<rparr>)
      else (False, p))
   \<and> ((\<exists>x\<in>set (hand p). rank x = rank c) \<longrightarrow>
        length (hand (snd (remove_card p c))) + 1 = length (hand p))"
  using length_remove_first[of "hand p" "\<lambda>x. rank x = rank c"]
  by (simp add: remove_card_def list_remove_first)

theorem remove_card_first_of_rank_witness:
  "(\<exists>x\<in>set (hand alice). rank x = rank \<lparr>suit = SPADES, rank = TWO\<rparr>)
   \<and> remove_card alice \<lparr>suit = SPADES, rank = TWO\<rparr>
       = (True, alice\<lparr>hand := [\<lparr>suit = HEARTS, rank = KING\<rparr>]\<rparr>)
   \<and> length (hand (snd (remove_card alice \<lparr>suit = SPADES, rank = TWO\<rparr>))) + 1
       = length (hand alice)
   \<and> remove_card alice \<lparr>suit = HEARTS, rank = ACE\<rparr> = (False, alice)"
  using remove_card_first_of_rank[of alice "\<lparr>suit = SPADES, rank = TWO\<rparr>"]
    remove_card_first_of_rank[of alice "\<lparr>suit = HEARTS, rank = ACE\<rparr>"]
  by (simp add: alice_def)

section \<open>The bid dictionary\<close>

lemma dict_set_new: "k \<notin> fst ` set d \<Longrightarrow> dict_set d k v = d @ [(k, v)]"
  by (induction d) auto

text \<open>
  Claim C6. \<^verbatim>\<open>place_bid\<close> for a player whose bid is already recorded returns false and
  leaves the auction as it is; for any other player it appends the bid. So the keys of the
  bid dictionary, empty when the auction starts, stay pairwise different.
\<close>

theorem place_bid_once:
  "(player \<in> fst ` set (bids a) \<longrightarrow> place_bid a player c = (False, a))
   \<and> (player \<notin> fst ` set (bids a) \<longrightarrow>
        place_bid a player c = (True, a\<lparr>bids := bids a @ [(player, c)]\<rparr>))
   \<and> (distinct (map fst (bids a)) \<longrightarrow> distinct (map fst (bids (snd (place_bid a player c)))))
   \<and> bids (start_auction a d n) = []"
  by (auto simp: place_bid_def dict_set_new start_auction_def)

theorem place_bid_once_witness:
  "place_bid (snd (place_bid new_auction 0 \<lparr>suit = HEARTS, rank = KING\<rparr>)) 0
       \<lparr>suit = HEARTS, rank = TWO\<rparr>
     = (False, new_auction\<lparr>bids := [(0, \<lparr>suit = HEARTS, rank = KING\<rparr>)]\<rparr>)
   \<and> distinct (map fst (bids (snd (place_bid new_auction 0 \<lparr>suit = HEARTS, rank = KING\<rparr>))))"
  using place_bid_once[of 0 new_auction "\<lparr>suit = HEARTS, rank = KING\<rparr>"]
    place_bid_once[of 0 "snd (place_bid new_auction 0 \<lparr>suit = HEARTS, rank = KING\<rparr>)"
      "\<lparr>suit = HEARTS, rank = TWO\<rparr>"]
  by (simp add: new_auction_def)

section \<open>The round driver\<close>

text \<open>
  Claim C7. \<^verbatim>\<open>_get_auction_card\<close> takes the first card of the carry-forward list when
  that list is not empty and leaves the pile alone; it draws from the pile only when the
  list is empty; and it returns \<^verbatim>\<open>None\<close> exactly when both are empty.
\<close>

theorem get_auction_card_order:
  "(carry_forward_diamonds g \<noteq> [] \<longrightarrow>
      get_auction_card g =
        (Some (hd (carry_forward_diamonds g)),
         g\<lparr>carry_forward_diamonds := tl (carry_forward_diamonds g)\<rparr>))
   \<and> (carry_forward_diamonds g = [] \<and> cards (deck g) \<noteq> [] \<longrightarrow>
      get_auction_card g =
        (Some (last (cards (deck g))),
         g\<lparr>deck := (deck g)\<lparr>cards := butlast (cards (deck g))\<rparr>\<rparr>))
   \<and> (carry_forward_diamonds g = [] \<and> cards (deck g) = [] \<longrightarrow> get_auction_card g = (None, g))
   \<and> (fst (get_auction_card g) = None \<longleftrightarrow>
        carry_forward_diamonds g = [] \<and> cards (deck g) = [])"
  by (auto simp: get_auction_card_def draw_card_def is_empty_def split: list.splits)

theorem get_auction_card_order_witness:
  "get_auction_card
     (sample_game\<lparr>carry_forward_diamonds :=
        [\<lparr>suit = DIAMONDS, rank = TWO\<rparr>, \<lparr>suit = DIAMONDS, rank = NINE\<rparr>]\<rparr>)
     = (Some \<lparr>suit = DIAMONDS, rank = TWO\<rparr>,
        sample_game\<lparr>carry_forward_diamonds := [\<lparr>suit = DIAMONDS, rank = NINE\<rparr>]\<rparr>)
   \<and> get_auction_card sample_game
     = (Some \<lparr>suit = DIAMONDS, rank = ACE\<rparr>,
        sample_game\<lparr>deck := \<lparr>cards = [\<lparr>suit = DIAMONDS, rank = TEN\<rparr>]\<rparr>\<rparr>)
   \<and> get_auction_card (new_game [alice, bob]) = (None, new_game [alice, bob])"
  using get_auction_card_order[of "sample_game\<lparr>carry_forward_diamonds :=
        [\<lparr>suit = DIAMONDS, rank = TWO\<rparr>, \<lparr>suit = DIAMONDS, rank = NINE\<rparr>]\<rparr>"]
    get_auction_card_order[of sample_game]
    get_auction_card_order[of "new_game [alice, bob]"]
  by (simp add: sample_game_def new_game_def two_diamonds_def)

text \<open>
  Claim C9. \<^verbatim>\<open>play_round\<close> on a game whose \<^verbatim>\<open>game_over\<close> flag is set returns the error
  dictionary, and the game is the same afterwards: round counter, players with their hands
  and won cards, pile, carry-forward list and history.
\<close>

theorem play_round_game_over:
  "game_over g \<Longrightarrow> play_round make_bid g = Inr (ErrorDict ''Game is already over'', g)"
  by (simp add: play_round_def)

theorem play_round_game_over_witness:
  "game_over (sample_game\<lparr>game_over := True\<rparr>)
   \<and> play_round bid_first (sample_game\<lparr>game_over := True\<rparr>)
       = Inr (ErrorDict ''Game is already over'', sample_game\<lparr>game_over := True\<rparr>)"
  using play_round_game_over[of "sample_game\<lparr>game_over := True\<rparr>" bid_first]
  by simp

section \<open>Collecting the bids of a round\<close>

lemma collect_step_eq:
  "i \<notin> fst ` set (bids a) \<Longrightarrow>
   collect_step make_bid g a i =
     a\<lparr>bids := bids a @ collected make_bid g (current_diamond a) [i]\<rparr>"
  by (auto simp: collect_step_def collected_def requested_bid_def List.map_filter_def
      place_bid_def dict_set_new split: option.splits)

lemma collected_keys: "fst ` set (collected make_bid g d is) \<subseteq> set is"
  by (auto simp: collected_def List.map_filter_def)

lemma collected_append:
  "collected make_bid g d (xs @ ys) = collected make_bid g d xs @ collected make_bid g d ys"
  by (simp add: collected_def List.map_filter_def)

lemma collect_fold:
  "\<forall>k\<in>fst ` set (bids a). k < lo \<Longrightarrow>
   foldl (collect_step make_bid g) a [lo..<lo + n] =
     a\<lparr>bids := bids a @ collected make_bid g (current_diamond a) [lo..<lo + n]\<rparr>"
proof (induction n)
  case 0
  then show ?case by (simp add: collected_def List.map_filter_def)
next
  case (Suc n)
  let ?a = "a\<lparr>bids := bids a @ collected make_bid g (current_diamond a) [lo..<lo + n]\<rparr>"
  have fresh: "lo + n \<notin> fst ` set (bids ?a)"
    using Suc.prems collected_keys[of make_bid g "current_diamond a" "[lo..<lo + n]"]
    by fastforce
  have "foldl (collect_step make_bid g) a [lo..<lo + Suc n] = collect_step make_bid g ?a (lo + n)"
    using Suc by simp
  also have "\<dots> = ?a\<lparr>bids := bids ?a @ collected make_bid g (current_diamond ?a) [lo + n]\<rparr>"
    by (rule collect_step_eq[OF fresh])
  finally show ?case
    by (simp add: collected_append[symmetric] del: upt_Suc) (simp add: collected_append)
qed

lemma collect_bids_eq:
  "bids (auction g) = [] \<Longrightarrow>
   collect_bids make_bid g =
     g\<lparr>auction := (auction g)\<lparr>bids :=
          collected make_bid g (current_diamond (auction g)) [0..<length (players g)]\<rparr>\<rparr>"
  using collect_fold[of "auction g" 0 make_bid g "length (players g)"]
  by (simp add: collect_bids_def)

lemma collected_distinct: "distinct is \<Longrightarrow> distinct (map fst (collected make_bid g d is))"
  by (induction "is") (auto simp: collected_def List.map_filter_def split: option.splits)

lemma collected_map_of:
  "distinct is \<Longrightarrow> map_of (collected make_bid g d is) i =
     (if i \<in> set is then requested_bid make_bid g d i else None)"
  by (induction "is") (auto simp: collected_def List.map_filter_def split: option.splits)

section \<open>Resolving and applying an auction\<close>

lemma resolve_no_bids:
  "bids a = [] \<Longrightarrow>
   resolve_auction a =
     Inr \<lparr>ar_diamond_card = current_diamond a, ar_bids = [], ar_result_type = RT_no_bids,
          ar_winner = None, ar_tied_players = Some [], ar_diamond_awarded = False,
          ar_carry_forward = False, ar_split_values = []\<rparr>"
  by (simp add: resolve_auction_def)

lemma resolve_one_bid:
  "bids a = [b] \<Longrightarrow>
   resolve_auction a =
     Inr \<lparr>ar_diamond_card = current_diamond a, ar_bids = [b],
          ar_result_type = RT_insufficient_bids,
          ar_winner = None, ar_tied_players = None, ar_diamond_awarded = False,
          ar_carry_forward = False, ar_split_values = []\<rparr>"
  by (simp add: resolve_auction_def determine_winner_def)

lemma resolve_shape:
  assumes "current_diamond a = Some d"
  shows "\<exists>r. resolve_auction a = Inr r \<and> ar_diamond_card r = Some d \<and> ar_bids r = bids a \<and>
    (case ar_result_type r of
       RT WINNER_DETERMINED \<Rightarrow> ar_winner r \<noteq> None \<and> \<not> ar_carry_forward r \<and> 2 \<le> length (bids a)
     | RT TIE_SPLIT \<Rightarrow> ar_winner r = None \<and> \<not> ar_carry_forward r \<and> 2 \<le> length (bids a)
     | RT TIE_CARRY_FORWARD \<Rightarrow> ar_winner r = None \<and> ar_carry_forward r \<and> 2 \<le> length (bids a)
     | RT_no_bids \<Rightarrow> ar_winner r = None \<and> \<not> ar_carry_forward r \<and> bids a = []
     | RT_insufficient_bids \<Rightarrow> ar_winner r = None \<and> \<not> ar_carry_forward r \<and> length (bids a) = 1
     | RT_None \<Rightarrow> False)"
  using assms
  by (cases "bids a"; cases "tl (bids a)")
     (auto simp: resolve_auction_def determine_winner_def Let_def
      split: AuctionResult.splits option.splits)


lemma map_update_same: "(map f xs)[i := f (xs ! i)] = map f xs"
  by (metis list_update_id map_update)

lemma award_each_Some:
  "\<exists>ps'. award_each ps sv (Some c) = Inr ps' \<and> length ps' = length ps
     \<and> map hand ps' = map hand ps"
proof (induction sv arbitrary: ps)
  case Nil
  show ?case by simp
next
  case (Cons x sv)
  obtain p pts where x: "x = (p, pts)" by (cases x)
  let ?ps = "ps[p := add_won_card (ps ! p) c]"
  have h: "map hand ?ps = map hand ps"
    by (simp add: map_update add_won_card_def map_update_same)
  from Cons[of ?ps] obtain ps' where "award_each ?ps sv (Some c) = Inr ps'"
    "length ps' = length ?ps" "map hand ps' = map hand ?ps" by blast
  with h show ?case by (simp add: x award_def)
qed

lemma process_shape:
  assumes "ar_diamond_card r = Some c"
    and "ar_result_type r = RT WINNER_DETERMINED \<longrightarrow> ar_winner r \<noteq> None"
  shows "\<exists>ps. process_auction_results g r = Inr (g\<lparr>players := ps\<rparr>) \<and> length ps = length (players g)
     \<and> map hand ps = map hand (players g)"
proof -
  consider (w) "ar_result_type r = RT WINNER_DETERMINED"
    | (s) "ar_result_type r = RT TIE_SPLIT"
    | (o) "ar_result_type r \<noteq> RT WINNER_DETERMINED" "ar_result_type r \<noteq> RT TIE_SPLIT"
    by blast
  then show ?thesis
  proof cases
    case w
    then obtain win where win: "ar_winner r = Some win" using assms by auto
    let ?ps = "(players g)[win := add_won_card (players g ! win) c]"
    have "map hand ?ps = map hand (players g)"
      by (simp add: map_update add_won_card_def map_update_same)
    moreover have "process_auction_results g r = Inr (g\<lparr>players := ?ps\<rparr>)"
      using w win assms by (simp add: process_auction_results_def award_def)
    ultimately show ?thesis by (intro exI[of _ ?ps]) simp
  next
    case s
    obtain ps' where "award_each (players g) (ar_split_values r) (Some c) = Inr ps'"
      "length ps' = length (players g)" "map hand ps' = map hand (players g)"
      using award_each_Some by blast
    with s assms show ?thesis
      by (intro exI[of _ ps']) (simp add: process_auction_results_def)
  next
    case o
    have "g\<lparr>players := players g\<rparr> = g" by simp
    with o show ?thesis by (metis process_auction_results_def)
  qed
qed


lemma collect_bids_fields:
  "players (collect_bids mk g) = players g"
  "deck (collect_bids mk g) = deck g"
  "game_over (collect_bids mk g) = game_over g"
  "round_number (collect_bids mk g) = round_number g"
  "carry_forward_diamonds (collect_bids mk g) = carry_forward_diamonds g"
  "game_history (collect_bids mk g) = game_history g"
  by (simp_all add: collect_bids_def)

lemma collect_started:
  "auction (collect_bids mk (g\<lparr>auction := start_auction (auction g) c n\<rparr>)) =
     (start_auction (auction g) c n)\<lparr>bids := collected mk g (Some c) [0..<length (players g)]\<rparr>"
proof -
  let ?g = "g\<lparr>auction := start_auction (auction g) c n\<rparr>"
  have "bids (auction ?g) = []" by (simp add: start_auction_def)
  from collect_bids_eq[OF this, of mk]
  have "auction (collect_bids mk ?g) =
     (auction ?g)\<lparr>bids := collected mk ?g (current_diamond (auction ?g)) [0..<length (players ?g)]\<rparr>"
    by simp
  moreover have "\<And>d i. requested_bid mk ?g d i = requested_bid mk g d i"
    by (simp add: requested_bid_def cong: if_cong)
  then have "collected mk ?g = collected mk g"
    by (intro ext) (simp add: collected_def)
  ultimately show ?thesis by (simp add: start_auction_def)
qed

lemma run_auction_total:
  "\<exists>res ps rr g'.
     resolve_auction ((start_auction (auction g) c (round_number g))\<lparr>bids := round_bids mk g c\<rparr>) = Inr res
   \<and> process_auction_results (collect_bids mk (g\<lparr>auction := start_auction (auction g) c (round_number g)\<rparr>)) res
       = Inr ((collect_bids mk (g\<lparr>auction := start_auction (auction g) c (round_number g)\<rparr>))\<lparr>players := ps\<rparr>)
   \<and> length ps = length (players g) \<and> map hand ps = map hand (players g)
   \<and> run_auction mk g rr0 c = Inr (RoundDict rr, g')
   \<and> rr = rr0\<lparr>rr_diamond_card := Some c, rr_bids := round_bids mk g c, rr_result := Some res,
              rr_winner := (if ar_winner res \<noteq> None then ar_winner res else rr_winner rr0),
              rr_carry_forward := (if ar_winner res = None \<and> ar_carry_forward res then True else rr_carry_forward rr0)\<rparr>
   \<and> g' = g\<lparr>auction := start_auction (auction g) c (round_number g),
             players := remove_each ps (round_bids mk g c),
             carry_forward_diamonds :=
               (if ar_carry_forward res then carry_forward_diamonds g @ [c] else carry_forward_diamonds g),
             game_history := game_history g @ [rr]\<rparr>"
proof -
  let ?a = "(start_auction (auction g) c (round_number g))\<lparr>bids := round_bids mk g c\<rparr>"
  let ?g4 = "collect_bids mk (g\<lparr>auction := start_auction (auction g) c (round_number g)\<rparr>)"
  have a: "auction ?g4 = ?a" by (simp add: collect_started round_bids_def)
  have cd: "current_diamond ?a = Some c" by (simp add: start_auction_def)
  from resolve_shape[OF cd] obtain res where res: "resolve_auction ?a = Inr res"
    "ar_diamond_card res = Some c" "ar_bids res = bids ?a"
    and shape: "(case ar_result_type res of
       RT WINNER_DETERMINED \<Rightarrow> ar_winner res \<noteq> None \<and> \<not> ar_carry_forward res \<and> 2 \<le> length (bids ?a)
     | RT TIE_SPLIT \<Rightarrow> ar_winner res = None \<and> \<not> ar_carry_forward res \<and> 2 \<le> length (bids ?a)
     | RT TIE_CARRY_FORWARD \<Rightarrow> ar_winner res = None \<and> ar_carry_forward res \<and> 2 \<le> length (bids ?a)
     | RT_no_bids \<Rightarrow> ar_winner res = None \<and> \<not> ar_carry_forward res \<and> bids ?a = []
     | RT_insufficient_bids \<Rightarrow> ar_winner res = None \<and> \<not> ar_carry_forward res \<and> length (bids ?a) = 1
     | RT_None \<Rightarrow> False)" by blast
  have w: "ar_result_type res = RT WINNER_DETERMINED \<longrightarrow> ar_winner res \<noteq> None"
    using shape by auto
  have nc: "ar_winner res \<noteq> None \<longrightarrow> \<not> ar_carry_forward res"
    using shape by (auto split: ResultType.splits AuctionResult.splits)
  from process_shape[OF res(2) w, of ?g4] obtain ps where
    ps: "process_auction_results ?g4 res = Inr (?g4\<lparr>players := ps\<rparr>)"
    "length ps = length (players ?g4)" "map hand ps = map hand (players ?g4)" by blast
  show ?thesis
    apply (intro exI[of _ res] exI[of _ ps])
    using res ps nc a
    apply (simp add: run_auction_def Let_def collect_bids_fields get_all_bids_def
        remove_bid_cards_def clear_bids_def)
    apply (simp add: collect_bids_def start_auction_def)
    done
qed

section \<open>The tie-break\<close>

lemma sorted_bids_set: "set (sorted_bids_of bs) = set bs"
  by (simp add: sorted_bids_of_def)

lemma sorted_bids_length: "length (sorted_bids_of bs) = length bs"
  by (simp add: sorted_bids_of_def)

lemma sorted_bids_keys: "distinct (map fst bs) \<Longrightarrow> distinct (map fst (sorted_bids_of bs))"
proof -
  assume d: "distinct (map fst bs)"
  have "mset (map fst (sorted_bids_of bs)) = mset (map fst bs)"
    by (simp add: sorted_bids_of_def)
  then show ?thesis using d by (metis mset_eq_imp_distinct_iff)
qed

lemma sorted_bids_head_max:
  assumes "bs \<noteq> []"
  shows "get_numeric_value (snd (sorted_bids_of bs ! 0)) = spec_max_bid bs"
proof -
  let ?s = "sorted_bids_of bs"
  let ?v = "\<lambda>x. get_numeric_value (snd x)"
  have ne: "?s \<noteq> []" using assms sorted_bids_length[of bs] by auto
  have srt: "sorted (map (\<lambda>x. - ?v x) ?s)" by (simp add: sorted_bids_of_def)
  have mem: "?s ! 0 \<in> set bs" using ne sorted_bids_set[of bs] by (metis length_greater_0_conv nth_mem)
  have top: "?v x \<le> ?v (?s ! 0)" if "x \<in> set bs" for x
  proof -
    from that obtain i where i: "i < length ?s" "?s ! i = x"
      using sorted_bids_set[of bs] by (metis in_set_conv_nth)
    have "map (\<lambda>x. - ?v x) ?s ! 0 \<le> map (\<lambda>x. - ?v x) ?s ! i"
      using srt i(1) by (intro sorted_nth_mono) auto
    then show ?thesis using i ne by simp
  qed
  show ?thesis unfolding spec_max_bid_def
    by (rule Max_eqI[symmetric]) (use mem top in auto)
qed

lemma tied_list:
  assumes "bs \<noteq> []" "distinct (map fst bs)"
  defines "tied \<equiv> map fst (filter (\<lambda>x. get_numeric_value (snd x) = spec_max_bid bs) (sorted_bids_of bs))"
  shows "set tied = spec_tied bs" "distinct tied" "fst (sorted_bids_of bs ! 0) \<in> set tied"
    "card (spec_tied bs) = length tied"
proof -
  show s: "set tied = spec_tied bs"
    by (simp add: tied_def spec_tied_def sorted_bids_set)
  show d: "distinct tied"
    unfolding tied_def using sorted_bids_keys[OF assms(2)] by (rule distinct_map_filter)
  have "sorted_bids_of bs \<noteq> []" using assms(1) sorted_bids_length[of bs] by auto
  then have "sorted_bids_of bs ! 0 \<in> set (sorted_bids_of bs)" by simp
  then show "fst (sorted_bids_of bs ! 0) \<in> set tied"
    using sorted_bids_head_max[OF assms(1)] by (auto simp: tied_def)
  show "card (spec_tied bs) = length tied"
    using s d by (metis distinct_card)
qed

lemma determine_winner_eq:
  assumes "2 \<le> length (bids a)"
  shows "determine_winner a =
     (let tied = map fst (filter (\<lambda>x. get_numeric_value (snd x) = spec_max_bid (bids a))
                    (sorted_bids_of (bids a)))
      in if length tied > 1
         then (if tie_handling_method a = ''split'' then TIE_SPLIT else TIE_CARRY_FORWARD,
               None, Some tied)
         else (WINNER_DETERMINED, Some (fst (sorted_bids_of (bids a) ! 0)),
               Some [fst (sorted_bids_of (bids a) ! 0)]))"
proof -
  have "bids a \<noteq> []" using assms by auto
  from sorted_bids_head_max[OF this] show ?thesis
    using assms by (simp add: determine_winner_def Let_def)
qed

section \<open>Termination of the game\<close>

lemma get_auction_card_cases:
  "get_auction_card g =
     (case carry_forward_diamonds g of
        c # rest \<Rightarrow> (Some c, g\<lparr>carry_forward_diamonds := rest\<rparr>)
      | [] \<Rightarrow> (if cards (deck g) = [] then (None, g)
               else (Some (last (cards (deck g))),
                     g\<lparr>deck := (deck g)\<lparr>cards := butlast (cards (deck g))\<rparr>\<rparr>)))"
  by (simp add: get_auction_card_def draw_card_def is_empty_def split: list.splits)

lemma get_auction_card_keeps:
  "get_auction_card g = (x, g') \<Longrightarrow>
     players g' = players g \<and> game_over g' = game_over g \<and> round_number g' = round_number g
     \<and> game_history g' = game_history g \<and> auction g' = auction g"
  by (auto simp: get_auction_card_cases split: list.splits if_splits)

lemma get_auction_card_None:
  "fst (get_auction_card g) = None \<longleftrightarrow> carry_forward_diamonds g = [] \<and> cards (deck g) = []"
  by (auto simp: get_auction_card_cases split: list.splits if_splits)

lemma should_end_game_iff: "should_end_game g \<longleftrightarrow> (\<forall>p\<in>set (players g). hand p = [])"
  by (simp add: should_end_game_def has_cards_def list_all_iff)

text \<open>
  Claim C8. A round played on a game that is not over sets the \<^verbatim>\<open>game_over\<close> flag if
  and only if every hand is empty (whatever the pile and the carry-forward list hold) or
  the carry-forward list and the pile are both empty (whatever the hands hold). The
  \<^verbatim>\<open>game_over\<close> entry of the returned dictionary is the flag.
\<close>

theorem play_round_sets_game_over:
  assumes "\<not> game_over g"
  shows "\<exists>r g'. play_round make_bid g = Inr (RoundDict r, g')
     \<and> (game_over g' \<longleftrightarrow>
          (\<forall>p\<in>set (players g). hand p = [])
          \<or> (carry_forward_diamonds g = [] \<and> cards (deck g) = []))
     \<and> rr_game_over r = game_over g'"
proof -
  let ?g1 = "g\<lparr>round_number := round_number g + 1\<rparr>"
  let ?rr0 = "\<lparr>rr_round_number = round_number ?g1, rr_diamond_card = None, rr_bids = [],
                   rr_result = None, rr_winner = None, rr_carry_forward = False,
                   rr_game_over = False\<rparr>"
  show ?thesis
  proof (cases "should_end_game ?g1")
    case True
    then have "\<forall>p\<in>set (players g). hand p = []" by (simp add: should_end_game_iff)
    with True assms show ?thesis by (simp add: play_round_def)
  next
    case False
    then have hands: "\<not> (\<forall>p\<in>set (players g). hand p = [])" by (simp add: should_end_game_iff)
    obtain x g2 where ga: "get_auction_card ?g1 = (x, g2)" by (cases "get_auction_card ?g1")
    have none: "x = None \<longleftrightarrow> carry_forward_diamonds g = [] \<and> cards (deck g) = []"
      using get_auction_card_None[of ?g1] ga by simp
    have keep: "game_over g2 = game_over g" using get_auction_card_keeps[OF ga] by simp
    show ?thesis
    proof (cases x)
      case None
      with False assms ga none hands show ?thesis by (simp add: play_round_def)
    next
      case (Some c)
      from run_auction_total[where g=g2 and c=c and mk=make_bid and ?rr0.0="?rr0"] obtain rr g' where
        ra: "run_auction make_bid g2 ?rr0 c = Inr (RoundDict rr, g')"
        and rr: "rr_game_over rr = False" and g': "game_over g' = game_over g2"
        by (elim exE conjE) simp
      have "play_round make_bid g = Inr (RoundDict rr, g')"
        using assms False ga Some ra by (simp add: play_round_def)
      with rr g' keep assms none hands Some show ?thesis by simp
    qed
  qed
qed

theorem play_round_sets_game_over_witness:
  "\<not> game_over (new_game [alice, bob])
   \<and> (\<exists>r g'. play_round bid_first (new_game [alice, bob]) = Inr (RoundDict r, g')
         \<and> game_over g' \<and> rr_game_over r)
   \<and> \<not> game_over (sample_game\<lparr>players := [alice\<lparr>hand := []\<rparr>, bob\<lparr>hand := []\<rparr>]\<rparr>)
   \<and> (\<exists>r g'. play_round bid_first
                (sample_game\<lparr>players := [alice\<lparr>hand := []\<rparr>, bob\<lparr>hand := []\<rparr>]\<rparr>)
              = Inr (RoundDict r, g')
         \<and> game_over g' \<and> rr_game_over r)
   \<and> \<not> game_over sample_game
   \<and> (\<exists>r g'. play_round bid_first sample_game = Inr (RoundDict r, g')
         \<and> \<not> game_over g' \<and> \<not> rr_game_over r)"
proof -
  let ?dry = "new_game [alice, bob]"
  let ?bare = "sample_game\<lparr>players := [alice\<lparr>hand := []\<rparr>, bob\<lparr>hand := []\<rparr>]\<rparr>"
  have n1: "\<not> game_over ?dry" by (simp add: new_game_def)
  have e1: "carry_forward_diamonds ?dry = [] \<and> cards (deck ?dry) = []"
    by (simp add: new_game_def)
  have n2: "\<not> game_over ?bare" by (simp add: sample_game_def new_game_def)
  have e2: "\<forall>p\<in>set (players ?bare). hand p = []" by simp
  have n3: "\<not> game_over sample_game" by (simp add: sample_game_def new_game_def)
  have e3: "\<not> ((\<forall>p\<in>set (players sample_game). hand p = [])
      \<or> (carry_forward_diamonds sample_game = [] \<and> cards (deck sample_game) = []))"
    by (simp add: sample_game_def new_game_def two_diamonds_def alice_def)
  have r1: "\<exists>r g'. play_round bid_first ?dry = Inr (RoundDict r, g')
         \<and> game_over g' \<and> rr_game_over r"
    using play_round_sets_game_over[OF n1, of bid_first] e1 by blast
  have r2: "\<exists>r g'. play_round bid_first ?bare = Inr (RoundDict r, g')
         \<and> game_over g' \<and> rr_game_over r"
    using play_round_sets_game_over[OF n2, of bid_first] e2 by blast
  have r3: "\<exists>r g'. play_round bid_first sample_game = Inr (RoundDict r, g')
         \<and> \<not> game_over g' \<and> \<not> rr_game_over r"
    using play_round_sets_game_over[OF n3, of bid_first] e3 by blast
  from n1 r1 n2 r2 n3 r3 show ?thesis by blast
qed

section \<open>Where the cards go\<close>



lemma remove_card_won: "won_cards (snd (remove_card p c)) = won_cards p"
  by (simp add: remove_card_def split: sum.splits)

lemma remove_each_length: "length (remove_each ps bs) = length ps"
  by (induction ps bs rule: remove_each.induct) auto

lemma remove_each_won: "map won_cards (remove_each ps bs) = map won_cards ps"
proof (induction ps bs rule: remove_each.induct)
  case (1 ps)
  show ?case by simp
next
  case (2 ps p c rest)
  have "map won_cards (ps[p := snd (remove_card (ps ! p) c)]) = map won_cards ps"
    by (simp add: map_update remove_card_won map_update_same)
  with 2 show ?case by simp
qed

lemma remove_each_nth:
  "distinct (map fst bs) \<Longrightarrow> i < length ps \<Longrightarrow>
   remove_each ps bs ! i =
     (case map_of bs i of None \<Rightarrow> ps ! i | Some c \<Rightarrow> snd (remove_card (ps ! i) c))"
proof (induction ps bs rule: remove_each.induct)
  case (1 ps)
  show ?case by simp
next
  case (2 ps p c rest)
  let ?ps = "ps[p := snd (remove_card (ps ! p) c)]"
  have ih: "remove_each ?ps rest ! i =
     (case map_of rest i of None \<Rightarrow> ?ps ! i | Some c \<Rightarrow> snd (remove_card (?ps ! i) c))"
    using 2 by simp
  show ?case
  proof (cases "i = p")
    case True
    then have "map_of rest i = None" using 2(2) by (simp add: map_of_eq_None_iff)
    with ih True 2(3) show ?thesis by simp
  next
    case False
    with ih show ?thesis by (simp split: option.splits)
  qed
qed



lemma process_winner:
  "ar_diamond_card r = Some c \<Longrightarrow> ar_result_type r = RT WINNER_DETERMINED \<Longrightarrow>
   ar_winner r = Some w \<Longrightarrow>
   process_auction_results g r
     = Inr (g\<lparr>players := (players g)[w := add_won_card (players g ! w) c]\<rparr>)"
  by (simp add: process_auction_results_def award_def)

lemma process_nothing:
  "ar_result_type r \<noteq> RT WINNER_DETERMINED \<Longrightarrow> ar_result_type r \<noteq> RT TIE_SPLIT \<Longrightarrow>
   process_auction_results g r = Inr g"
  by (simp add: process_auction_results_def)


lemma round_bids_keys: "fst ` set (round_bids mk g c) \<subseteq> {0..<length (players g)}"
  using collected_keys[of mk g "Some c" "[0..<length (players g)]"]
  by (simp add: round_bids_def)

lemma round_bids_distinct: "distinct (map fst (round_bids mk g c))"
  by (simp add: round_bids_def collected_distinct)

lemma remove_card_hand_cong:
  "hand p = hand q \<Longrightarrow> hand (snd (remove_card p b)) = hand (snd (remove_card q b))"
  by (simp add: remove_card_def split: sum.splits)

lemma round_bids_map_of:
  "i < length (players g) \<Longrightarrow> map_of (round_bids mk g c) i = requested_bid mk g (Some c) i"
  by (simp add: round_bids_def collected_map_of)

text \<open>What a round with an auction card does to the game.\<close>

lemma run_auction_effect:
  obtains res ps rr g' where
    "run_auction mk g rr0 c = Inr (RoundDict rr, g')"
    "resolve_auction ((start_auction (auction g) c (round_number g))\<lparr>bids := round_bids mk g c\<rparr>)
       = Inr res"
    "process_auction_results
       (collect_bids mk (g\<lparr>auction := start_auction (auction g) c (round_number g)\<rparr>)) res
     = Inr ((collect_bids mk (g\<lparr>auction := start_auction (auction g) c (round_number g)\<rparr>))
              \<lparr>players := ps\<rparr>)"
    "length ps = length (players g)" "map hand ps = map hand (players g)"
    "rr_diamond_card rr = Some c" "rr_bids rr = round_bids mk g c" "rr_result rr = Some res"
    "rr_game_over rr = rr_game_over rr0"
    "players g' = remove_each ps (round_bids mk g c)"
    "deck g' = deck g" "game_over g' = game_over g"
    "carry_forward_diamonds g' =
       (if ar_carry_forward res then carry_forward_diamonds g @ [c] else carry_forward_diamonds g)"
    "ar_diamond_card res = Some c" "ar_bids res = round_bids mk g c"
    "rr_winner rr = (if ar_winner res \<noteq> None then ar_winner res else rr_winner rr0)"
    "rr_carry_forward rr = (ar_carry_forward res \<or> rr_carry_forward rr0)"
proof -
  from run_auction_total[where g=g and c=c and mk=mk and ?rr0.0=rr0]
  obtain res ps rr g' where
    h: "resolve_auction ((start_auction (auction g) c (round_number g))\<lparr>bids := round_bids mk g c\<rparr>) = Inr res"
     "process_auction_results (collect_bids mk (g\<lparr>auction := start_auction (auction g) c (round_number g)\<rparr>)) res
       = Inr ((collect_bids mk (g\<lparr>auction := start_auction (auction g) c (round_number g)\<rparr>))\<lparr>players := ps\<rparr>)"
     "length ps = length (players g)" "map hand ps = map hand (players g)"
     "run_auction mk g rr0 c = Inr (RoundDict rr, g')"
     "rr = rr0\<lparr>rr_diamond_card := Some c, rr_bids := round_bids mk g c, rr_result := Some res,
              rr_winner := (if ar_winner res \<noteq> None then ar_winner res else rr_winner rr0),
              rr_carry_forward := (if ar_winner res = None \<and> ar_carry_forward res then True else rr_carry_forward rr0)\<rparr>"
     "g' = g\<lparr>auction := start_auction (auction g) c (round_number g),
             players := remove_each ps (round_bids mk g c),
             carry_forward_diamonds :=
               (if ar_carry_forward res then carry_forward_diamonds g @ [c] else carry_forward_diamonds g),
             game_history := game_history g @ [rr]\<rparr>"
    by blast
  have cd: "current_diamond ((start_auction (auction g) c (round_number g))\<lparr>bids := round_bids mk g c\<rparr>) = Some c"
    by (simp add: start_auction_def)
  from resolve_shape[OF cd] h(1) have r: "ar_diamond_card res = Some c" "ar_bids res = round_bids mk g c"
    "ar_carry_forward res \<longrightarrow> ar_winner res = None"
    by (auto split: ResultType.splits AuctionResult.splits)
  show thesis
    by (rule that[OF h(5) h(1) h(2) h(3) h(4)]) (use r in \<open>auto simp: h(6) h(7)\<close>)
qed

lemma run_auction_hands:
  assumes "run_auction mk g rr0 c = Inr (ret, g')" and "i < length (players g)"
  shows "length (players g') = length (players g)"
    and "hand (players g' ! i) =
      (case requested_bid mk g (Some c) i of
         None \<Rightarrow> hand (players g ! i)
       | Some b \<Rightarrow> hand (snd (remove_card (players g ! i) b)))"
proof -
  obtain res ps rr g'' where
    ra: "run_auction mk g rr0 c = Inr (RoundDict rr, g'')"
    and ps: "length ps = length (players g)" "map hand ps = map hand (players g)"
    and pl: "players g'' = remove_each ps (round_bids mk g c)"
    by (rule run_auction_effect[of mk g rr0 c])
  from ra assms(1) have g'': "g'' = g'" by simp
  show "length (players g') = length (players g)"
    using pl ps g'' by (simp add: remove_each_length)
  have i: "i < length ps" using assms(2) ps by simp
  have hi: "hand (ps ! i) = hand (players g ! i)"
    using ps(2) i assms(2) by (metis nth_map)
  have "players g' ! i =
     (case map_of (round_bids mk g c) i of None \<Rightarrow> ps ! i
      | Some b \<Rightarrow> snd (remove_card (ps ! i) b))"
    using pl g'' remove_each_nth[OF round_bids_distinct i, of mk g c] by simp
  then show "hand (players g' ! i) =
      (case requested_bid mk g (Some c) i of
         None \<Rightarrow> hand (players g ! i)
       | Some b \<Rightarrow> hand (snd (remove_card (players g ! i) b)))"
    using hi remove_card_hand_cong[OF hi]
    by (simp add: round_bids_map_of[OF assms(2)] split: option.splits)
qed


lemma get_auction_card_round:
  "get_auction_card g = (x, g2) \<Longrightarrow>
   get_auction_card (g\<lparr>round_number := n\<rparr>) = (x, g2\<lparr>round_number := n\<rparr>)"
  by (auto simp: get_auction_card_cases split: list.splits if_splits)


lemma play_round_live:
  assumes "\<not> game_over g" and "\<not> should_end_game g" and "get_auction_card g = (Some c, g2)"
  shows "play_round mk g
     = run_auction mk (g2\<lparr>round_number := round_number g + 1\<rparr>)
         (fresh_result (round_number g + 1)) c"
proof -
  have "\<not> should_end_game (g\<lparr>round_number := round_number g + 1\<rparr>)"
    using assms(2) by (simp add: should_end_game_def)
  then show ?thesis
    using assms(1) get_auction_card_round[OF assms(3), of "round_number g + 1"]
    by (simp add: play_round_def fresh_result_def)
qed

lemma play_round_idle:
  assumes "\<not> game_over g" and "should_end_game g \<or> fst (get_auction_card g) = None"
  shows "play_round mk g
     = Inr (RoundDict ((fresh_result (round_number g + 1))\<lparr>rr_game_over := True\<rparr>),
            g\<lparr>round_number := round_number g + 1, game_over := True\<rparr>)"
proof (cases "should_end_game g")
  case True
  then have "should_end_game (g\<lparr>round_number := round_number g + 1\<rparr>)"
    by (simp add: should_end_game_def)
  then show ?thesis using assms(1) by (simp add: play_round_def fresh_result_def)
next
  case False
  then have ns: "\<not> should_end_game (g\<lparr>round_number := round_number g + 1\<rparr>)"
    by (simp add: should_end_game_def)
  obtain x g2 where ga: "get_auction_card g = (x, g2)" by (cases "get_auction_card g")
  with assms(2) False have x: "x = None" by simp
  then have "g2 = g" using ga get_auction_card_None[of g]
    by (auto simp: get_auction_card_cases split: list.splits if_splits)
  with ns x assms(1) get_auction_card_round[OF ga, of "round_number g + 1"]
  show ?thesis by (simp add: play_round_def fresh_result_def)
qed

lemma first_round_value:
  "play_round bid_first sample_game = Inr (RoundDict first_round, first_after)"
  by code_simp

lemma tie_round_value:
  "play_round bid_first tie_game = Inr (RoundDict tie_round, tie_after)"
  by code_simp

lemma foreign_round_value:
  "play_round bid_foreign sample_game = Inr (RoundDict foreign_round, foreign_after)"
  by code_simp


section \<open>Rounds with fewer than two bids\<close>

lemma play_round_cases:
  obtains (over) "game_over g"
  | (idle) "\<not> game_over g" "should_end_game g \<or> fst (get_auction_card g) = None"
  | (live) c g2 where "\<not> game_over g" "\<not> should_end_game g" "get_auction_card g = (Some c, g2)"
  by (cases "get_auction_card g"; cases "fst (get_auction_card g)") auto

text \<open>
  Claim C5. \<^verbatim>\<open>resolve_auction\<close> on no bids returns the result \<^verbatim>\<open>'no_bids'\<close>, and on one
  bid the result \<^verbatim>\<open>'insufficient_bids'\<close>, in both cases with no winner, nothing awarded
  and nothing carried forward, and \<^verbatim>\<open>_process_auction_results\<close> leaves the game as it is.
  In a round of \<^verbatim>\<open>play_round\<close> with fewer than two bids the revealed card has left the
  supply and is put nowhere: the pile and the carry-forward list are as
  \<^verbatim>\<open>_get_auction_card\<close> left them, the won cards are unchanged, and with no bid the
  players are unchanged altogether.
\<close>

theorem too_few_bids:
  "(bids a = [] \<longrightarrow>
      resolve_auction a =
        Inr \<lparr>ar_diamond_card = current_diamond a, ar_bids = [], ar_result_type = RT_no_bids,
             ar_winner = None, ar_tied_players = Some [], ar_diamond_awarded = False,
             ar_carry_forward = False, ar_split_values = []\<rparr>)
   \<and> (length (bids a) = 1 \<longrightarrow>
      resolve_auction a =
        Inr \<lparr>ar_diamond_card = current_diamond a, ar_bids = bids a,
             ar_result_type = RT_insufficient_bids,
             ar_winner = None, ar_tied_players = None, ar_diamond_awarded = False,
             ar_carry_forward = False, ar_split_values = []\<rparr>)
   \<and> (length (bids a) < 2 \<and> resolve_auction a = Inr r \<longrightarrow>
        process_auction_results g r = Inr g)
   \<and> (play_round mk g = Inr (RoundDict rr, g') \<and> rr_diamond_card rr = Some c
        \<and> length (rr_bids rr) < 2 \<longrightarrow>
          rr_winner rr = None \<and> \<not> rr_carry_forward rr
        \<and> deck g' = deck (snd (get_auction_card g))
        \<and> carry_forward_diamonds g' = carry_forward_diamonds (snd (get_auction_card g))
        \<and> map won_cards (players g') = map won_cards (players g)
        \<and> (rr_bids rr = [] \<longrightarrow> players g' = players g))"
proof -
  have one: "length (bids a) = 1 \<Longrightarrow> resolve_auction a =
        Inr \<lparr>ar_diamond_card = current_diamond a, ar_bids = bids a,
             ar_result_type = RT_insufficient_bids,
             ar_winner = None, ar_tied_players = None, ar_diamond_awarded = False,
             ar_carry_forward = False, ar_split_values = []\<rparr>" for a
  proof -
    assume "length (bids a) = 1"
    then obtain b where "bids a = [b]" by (cases "bids a") auto
    then show ?thesis by (simp add: resolve_one_bid)
  qed
  have few: "ar_result_type r \<noteq> RT WINNER_DETERMINED \<and> ar_result_type r \<noteq> RT TIE_SPLIT
      \<and> ar_winner r = None \<and> \<not> ar_carry_forward r"
    if "length (bids a) < 2" "resolve_auction a = Inr r" for a r
  proof (cases "bids a = []")
    case True
    with that(2) show ?thesis by (auto simp: resolve_no_bids)
  next
    case False
    with that(1) have "length (bids a) = 1" by (cases "bids a") auto
    from one[OF this] that(2) show ?thesis by auto
  qed
  have p: "length (bids a) < 2 \<and> resolve_auction a = Inr r \<longrightarrow>
        process_auction_results g r = Inr g"
    using few[of a r] process_nothing[of r g] by blast
  have q: "rr_winner rr = None \<and> \<not> rr_carry_forward rr
        \<and> deck g' = deck (snd (get_auction_card g))
        \<and> carry_forward_diamonds g' = carry_forward_diamonds (snd (get_auction_card g))
        \<and> map won_cards (players g') = map won_cards (players g)
        \<and> (rr_bids rr = [] \<longrightarrow> players g' = players g)"
    if pr: "play_round mk g = Inr (RoundDict rr, g')" and dc: "rr_diamond_card rr = Some c"
      and len: "length (rr_bids rr) < 2"
  proof (cases g rule: play_round_cases)
    case over
    with pr show ?thesis by (simp add: play_round_def)
  next
    case idle
    from play_round_idle[OF idle, of mk] pr dc show ?thesis
      by (auto simp: fresh_result_def)
  next
    case (live c' g2)
    let ?g = "g2\<lparr>round_number := round_number g + 1\<rparr>"
    let ?a = "(start_auction (auction ?g) c' (round_number ?g))\<lparr>bids := round_bids mk ?g c'\<rparr>"
    let ?g4 = "collect_bids mk (?g\<lparr>auction := start_auction (auction ?g) c' (round_number ?g)\<rparr>)"
    have ra: "run_auction mk ?g (fresh_result (round_number g + 1)) c' = Inr (RoundDict rr, g')"
      using play_round_live[OF live, of mk] pr by simp
    obtain res ps rr2 g'' where
      h: "run_auction mk ?g (fresh_result (round_number g + 1)) c' = Inr (RoundDict rr2, g'')"
       "resolve_auction ?a = Inr res"
       "process_auction_results ?g4 res = Inr (?g4\<lparr>players := ps\<rparr>)"
      and rb: "rr_bids rr2 = round_bids mk ?g c'"
      and pl: "players g'' = remove_each ps (round_bids mk ?g c')"
      and dk: "deck g'' = deck ?g"
      and cf: "carry_forward_diamonds g'' =
       (if ar_carry_forward res then carry_forward_diamonds ?g @ [c']
        else carry_forward_diamonds ?g)"
      and rw: "rr_winner rr2 = (if ar_winner res \<noteq> None then ar_winner res
                                else rr_winner (fresh_result (round_number g + 1)))"
      and rc: "rr_carry_forward rr2
                = (ar_carry_forward res \<or> rr_carry_forward (fresh_result (round_number g + 1)))"
      by (rule run_auction_effect[of mk ?g "fresh_result (round_number g + 1)" c'])
    from ra h(1) have eq: "rr2 = rr" "g'' = g'" by simp_all
    have bl: "length (bids ?a) < 2" using len eq(1) rb by simp
    note f = few[OF bl h(2)]
    from process_nothing[of res ?g4] f h(3) have "?g4\<lparr>players := ps\<rparr> = ?g4" by simp
    then have "players (?g4\<lparr>players := ps\<rparr>) = players ?g4" by simp
    then have ps: "ps = players g"
      using get_auction_card_keeps[OF live(3)] by (simp add: collect_bids_fields)
    have w: "map won_cards (players g') = map won_cards (players g)"
      using eq(2) pl ps by (simp add: remove_each_won)
    have e: "rr_bids rr = [] \<longrightarrow> players g' = players g"
      using eq rb pl ps by auto
    have "rr_winner rr = None \<and> \<not> rr_carry_forward rr"
      using eq rw rc f by (simp add: fresh_result_def)
    moreover have "deck g' = deck (snd (get_auction_card g))
        \<and> carry_forward_diamonds g' = carry_forward_diamonds (snd (get_auction_card g))"
      using eq dk cf f live(3) by simp
    ultimately show ?thesis using w e by blast
  qed
  from one[of a] resolve_no_bids[of a] p q show ?thesis by blast
qed

theorem too_few_bids_witness:
  "bids new_auction = []
   \<and> resolve_auction new_auction =
        Inr \<lparr>ar_diamond_card = None, ar_bids = [], ar_result_type = RT_no_bids,
             ar_winner = None, ar_tied_players = Some [], ar_diamond_awarded = False,
             ar_carry_forward = False, ar_split_values = []\<rparr>
   \<and> length (bids lone_bid) = 1
   \<and> resolve_auction lone_bid = Inr lone_outcome
   \<and> process_auction_results lone_game lone_outcome = Inr lone_game
   \<and> play_round bid_first lone_game = Inr (RoundDict lone_round, lone_after)
   \<and> rr_diamond_card lone_round = Some \<lparr>suit = DIAMONDS, rank = ACE\<rparr>
   \<and> length (rr_bids lone_round) < 2
   \<and> rr_winner lone_round = None
   \<and> deck lone_after = \<lparr>cards = [\<lparr>suit = DIAMONDS, rank = TEN\<rparr>]\<rparr>
   \<and> carry_forward_diamonds lone_after = []
   \<and> map won_cards (players lone_after) = [[], []]
   \<and> play_round bid_pass sample_game = Inr (RoundDict pass_round, pass_after)
   \<and> rr_bids pass_round = []
   \<and> players pass_after = players sample_game"
proof -
  have h0: "bids new_auction = []" by (simp add: new_auction_def)
  have h1: "length (bids lone_bid) = 1" by (simp add: lone_bid_def new_auction_def)
  have h2: "play_round bid_first lone_game = Inr (RoundDict lone_round, lone_after)"
    by code_simp
  have h3: "rr_diamond_card lone_round = Some \<lparr>suit = DIAMONDS, rank = ACE\<rparr>"
    "length (rr_bids lone_round) < 2"
    by (simp_all add: lone_round_def)
  have e1: "\<lparr>ar_diamond_card = current_diamond lone_bid, ar_bids = bids lone_bid,
             ar_result_type = RT_insufficient_bids,
             ar_winner = None, ar_tied_players = None, ar_diamond_awarded = False,
             ar_carry_forward = False, ar_split_values = []\<rparr> = lone_outcome"
    by (simp add: lone_bid_def lone_outcome_def new_auction_def)
  have e2: "deck (snd (get_auction_card lone_game)) = \<lparr>cards = [\<lparr>suit = DIAMONDS, rank = TEN\<rparr>]\<rparr>"
    "carry_forward_diamonds (snd (get_auction_card lone_game)) = []"
    "map won_cards (players lone_game) = [[], []]"
    "current_diamond new_auction = None"
    by code_simp+
  note t0 = too_few_bids[where a=new_auction]
  note t1 = too_few_bids[where a=lone_bid and r=lone_outcome and g=lone_game and mk=bid_first
      and rr=lone_round and g'=lone_after and c="\<lparr>suit = DIAMONDS, rank = ACE\<rparr>"]
  have r0: "resolve_auction new_auction =
        Inr \<lparr>ar_diamond_card = None, ar_bids = [], ar_result_type = RT_no_bids,
             ar_winner = None, ar_tied_players = Some [], ar_diamond_awarded = False,
             ar_carry_forward = False, ar_split_values = []\<rparr>"
    using t0 h0 e2(4) by simp
  have r1: "resolve_auction lone_bid = Inr lone_outcome"
    using t1 h1 e1 by simp
  have r2: "process_auction_results lone_game lone_outcome = Inr lone_game"
    using t1 h1 r1 by simp
  have r3: "rr_winner lone_round = None
      \<and> deck lone_after = \<lparr>cards = [\<lparr>suit = DIAMONDS, rank = TEN\<rparr>]\<rparr>
      \<and> carry_forward_diamonds lone_after = []
      \<and> map won_cards (players lone_after) = [[], []]"
    using t1 h2 h3 e2 by simp
  have h4: "play_round bid_pass sample_game = Inr (RoundDict pass_round, pass_after)"
    by code_simp
  have h5: "rr_diamond_card pass_round = Some \<lparr>suit = DIAMONDS, rank = ACE\<rparr>"
    "rr_bids pass_round = []"
    by (simp_all add: pass_round_def)
  have r4: "players pass_after = players sample_game"
    using too_few_bids[where mk=bid_pass and g=sample_game and rr=pass_round
        and g'=pass_after and c="\<lparr>suit = DIAMONDS, rank = ACE\<rparr>"] h4 h5
    by simp
  from h0 r0 h1 r1 r2 h2 h3 r3 h4 h5(2) r4 show ?thesis by blast
qed

section \<open>Bids that are not in the hand\<close>

text \<open>
  Claim C3, as the code has it. The claim as stated fails: \<^verbatim>\<open>_collect_bids\<close> passes
  whatever card the strategy returns to \<^verbatim>\<open>place_bid\<close>, which does not look at the hand.
  What holds: in a round with an auction card, the card that the strategy of a player with
  cards returns is recorded as that player's bid, in the hand or not; and after the round
  the hand of that player has lost the first card whose rank is the rank of the bid, if it
  has one, and is the hand as it was otherwise.
\<close>

theorem bid_recorded_without_validation:
  assumes "\<not> game_over g" and "fst (get_auction_card g) = Some c"
    and "i < length (players g)" and "has_cards (players g ! i)"
    and "make_bid i (Some c)
           \<lparr>bs_round = round_number g + 1, bs_players = players g,
            bs_game_history = game_history g\<rparr> = Some b"
  shows "\<exists>rr g'. play_round make_bid g = Inr (RoundDict rr, g')
     \<and> map_of (rr_bids rr) i = Some b
     \<and> hand (players g' ! i) =
         (if \<exists>x\<in>set (hand (players g ! i)). rank x = rank b
          then takeWhile (\<lambda>x. rank x \<noteq> rank b) (hand (players g ! i))
                 @ tl (dropWhile (\<lambda>x. rank x \<noteq> rank b) (hand (players g ! i)))
          else hand (players g ! i))"
proof -
  obtain g2 where ga: "get_auction_card g = (Some c, g2)"
    using assms(2) by (cases "get_auction_card g") auto
  have "players g ! i \<in> set (players g)" using assms(3) by simp
  with assms(4) have ns: "\<not> should_end_game g"
    by (auto simp: should_end_game_def list_all_iff)
  let ?g = "g2\<lparr>round_number := round_number g + 1\<rparr>"
  let ?rr0 = "fresh_result (round_number g + 1)"
  have keep: "players ?g = players g" "game_history ?g = game_history g"
    using get_auction_card_keeps[OF ga] by simp_all
  have i: "i < length (players ?g)" using assms(3) keep by simp
  have rq: "requested_bid make_bid ?g (Some c) i = Some b"
    using assms(4,5) keep by (simp add: requested_bid_def)
  obtain res ps rr g' where
    ra: "run_auction make_bid ?g ?rr0 c = Inr (RoundDict rr, g')"
    and rb: "rr_bids rr = round_bids make_bid ?g c"
    by (rule run_auction_effect[of make_bid ?g ?rr0 c])
  have pr: "play_round make_bid g = Inr (RoundDict rr, g')"
    using play_round_live[OF assms(1) ns ga, of make_bid] ra by simp
  have m: "map_of (rr_bids rr) i = Some b"
    using rb round_bids_map_of[OF i, of make_bid c] rq by simp
  have "hand (players g' ! i) = hand (snd (remove_card (players g ! i) b))"
    using run_auction_hands(2)[OF ra i] rq keep by simp
  also have "\<dots> =
         (if \<exists>x\<in>set (hand (players g ! i)). rank x = rank b
          then takeWhile (\<lambda>x. rank x \<noteq> rank b) (hand (players g ! i))
                 @ tl (dropWhile (\<lambda>x. rank x \<noteq> rank b) (hand (players g ! i)))
          else hand (players g ! i))"
    by (simp add: remove_card_def list_remove_first)
  finally show ?thesis using pr m by blast
qed

theorem bid_recorded_without_validation_witness:
  "\<not> game_over sample_game
   \<and> fst (get_auction_card sample_game) = Some \<lparr>suit = DIAMONDS, rank = ACE\<rparr>
   \<and> 0 < length (players sample_game) \<and> has_cards (players sample_game ! 0)
   \<and> bid_foreign 0 (Some \<lparr>suit = DIAMONDS, rank = ACE\<rparr>)
        \<lparr>bs_round = round_number sample_game + 1, bs_players = players sample_game,
         bs_game_history = game_history sample_game\<rparr> = Some \<lparr>suit = SPADES, rank = ACE\<rparr>
   \<and> (\<exists>rr g'. play_round bid_foreign sample_game = Inr (RoundDict rr, g')
        \<and> map_of (rr_bids rr) 0 = Some \<lparr>suit = SPADES, rank = ACE\<rparr>
        \<and> hand (players g' ! 0) = hand alice)"
proof -
  have h: "\<not> game_over sample_game"
    "fst (get_auction_card sample_game) = Some \<lparr>suit = DIAMONDS, rank = ACE\<rparr>"
    "0 < length (players sample_game)" "has_cards (players sample_game ! 0)"
    "bid_foreign 0 (Some \<lparr>suit = DIAMONDS, rank = ACE\<rparr>)
        \<lparr>bs_round = round_number sample_game + 1, bs_players = players sample_game,
         bs_game_history = game_history sample_game\<rparr> = Some \<lparr>suit = SPADES, rank = ACE\<rparr>"
    by code_simp+
  have a: "players sample_game ! 0 = alice" by (simp add: sample_game_def new_game_def)
  have n: "\<not> (\<exists>x\<in>set (hand alice). rank x = rank \<lparr>suit = SPADES, rank = ACE\<rparr>)"
    by (simp add: alice_def)
  from bid_recorded_without_validation[where g=sample_game and i=0 and make_bid=bid_foreign
      and c="\<lparr>suit = DIAMONDS, rank = ACE\<rparr>" and b="\<lparr>suit = SPADES, rank = ACE\<rparr>", OF h]
    a n h show ?thesis by simp
qed

text \<open>
  Claim C3 as stated is false on the sample game with bids in spades. The first player
  holds hearts and returns the ace of spades, of a rank that is not in the hand: the bid
  is recorded and wins the auction. The second player holds the queen of clubs and returns
  the queen of spades, which is not in the hand: the queen of clubs, never chosen, is
  removed.
\<close>

theorem bid_validation_counterexample:
  "\<not> can_bid (players sample_game ! 0) \<lparr>suit = SPADES, rank = ACE\<rparr>
   \<and> \<lparr>suit = SPADES, rank = QUEEN\<rparr> \<notin> set (hand (players sample_game ! 1))
   \<and> requested_bid bid_foreign (sample_game\<lparr>round_number := 1\<rparr>)
        (Some \<lparr>suit = DIAMONDS, rank = ACE\<rparr>) 0 = Some \<lparr>suit = SPADES, rank = ACE\<rparr>
   \<and> requested_bid bid_foreign (sample_game\<lparr>round_number := 1\<rparr>)
        (Some \<lparr>suit = DIAMONDS, rank = ACE\<rparr>) 1 = Some \<lparr>suit = SPADES, rank = QUEEN\<rparr>
   \<and> play_round bid_foreign sample_game = Inr (RoundDict foreign_round, foreign_after)
   \<and> rr_bids foreign_round
        = [(0, \<lparr>suit = SPADES, rank = ACE\<rparr>), (1, \<lparr>suit = SPADES, rank = QUEEN\<rparr>)]
   \<and> rr_winner foreign_round = Some 0
   \<and> hand (players sample_game ! 1)
        = [\<lparr>suit = CLUBS, rank = QUEEN\<rparr>, \<lparr>suit = CLUBS, rank = THREE\<rparr>]
   \<and> hand (players foreign_after ! 1) = [\<lparr>suit = CLUBS, rank = THREE\<rparr>]"
  by code_simp

section \<open>Split ties\<close>

text \<open>
  Claim C2, evaluated. In a split tie of two kings on the ace of diamonds, the result
  dictionary holds the split value 7 for each tied player, but
  \<^verbatim>\<open>_process_auction_results\<close> appends the ace itself to the won cards of both, so each
  score goes from 0 to 14 and the credits add up to 28, not to 14.
\<close>

theorem tie_split_awards_full_card:
  "play_round bid_first tie_game = Inr (RoundDict tie_round, tie_after)
   \<and> ar_result_type tie_outcome = RT TIE_SPLIT
   \<and> ar_split_values tie_outcome = [(0, 7), (1, 7)]
   \<and> map get_score (players tie_game) = [0, 0]
   \<and> map get_score (players tie_after) = [14, 14]
   \<and> map won_cards (players tie_after)
       = [[\<lparr>suit = DIAMONDS, rank = ACE\<rparr>], [\<lparr>suit = DIAMONDS, rank = ACE\<rparr>]]"
  by code_simp


section \<open>The tie-break and the award, in the auction and in a round\<close>

lemma single_top:
  assumes "2 \<le> length (bids a)" and "distinct (map fst (bids a))"
    and "card (spec_tied (bids a)) = 1"
  shows "spec_tied (bids a) = {fst (sorted_bids_of (bids a) ! 0)}"
    and "fst (sorted_bids_of (bids a) ! 0) \<in> fst ` set (bids a)"
    and "determine_winner a
           = (WINNER_DETERMINED, Some (fst (sorted_bids_of (bids a) ! 0)),
              Some [fst (sorted_bids_of (bids a) ! 0)])"
proof -
  let ?bs = "bids a"
  let ?tied = "map fst (filter (\<lambda>x. get_numeric_value (snd x) = spec_max_bid ?bs)
                    (sorted_bids_of ?bs))"
  let ?top = "fst (sorted_bids_of ?bs ! 0)"
  have ne: "?bs \<noteq> []" using assms(1) by auto
  note t = tied_list[OF ne assms(2)]
  from assms(3) t(4) have "length ?tied = 1" by simp
  then obtain w where w: "?tied = [w]" by (cases ?tied) auto
  with t(3) have "w = ?top" by simp
  with w have tl: "?tied = [?top]" by simp
  with t(1) show st: "spec_tied ?bs = {?top}" by (metis list.simps(15) empty_set)
  have "?top \<in> spec_tied ?bs" using st by simp
  then show "?top \<in> fst ` set ?bs" by (auto simp: spec_tied_def)
  have len: "\<not> 1 < length ?tied" by (simp only: tl) simp
  show "determine_winner a = (WINNER_DETERMINED, Some ?top, Some [?top])"
    using len by (simp only: determine_winner_eq[OF assms(1)] Let_def if_False)
qed

lemma single_resolve:
  assumes "2 \<le> length (bids a)" and "distinct (map fst (bids a))"
    and "card (spec_tied (bids a)) = 1" and "current_diamond a = Some d"
  shows "resolve_auction a =
        Inr \<lparr>ar_diamond_card = Some d, ar_bids = bids a, ar_result_type = RT WINNER_DETERMINED,
             ar_winner = Some (fst (sorted_bids_of (bids a) ! 0)),
             ar_tied_players = Some [fst (sorted_bids_of (bids a) ! 0)],
             ar_diamond_awarded = True, ar_carry_forward = False, ar_split_values = []\<rparr>"
proof -
  have ne: "bids a \<noteq> []" using assms(1) by auto
  show ?thesis
    using ne assms(4) by (simp add: resolve_auction_def single_top(3)[OF assms(1,2,3)])
qed

lemma several_tied:
  assumes "2 \<le> length (bids a)" and "distinct (map fst (bids a))"
    and "2 \<le> card (spec_tied (bids a))"
  shows "\<exists>tied. set tied = spec_tied (bids a) \<and> distinct tied
            \<and> determine_winner a
                = (if tie_handling_method a = ''split'' then TIE_SPLIT else TIE_CARRY_FORWARD,
                   None, Some tied)"
proof -
  let ?bs = "bids a"
  let ?tied = "map fst (filter (\<lambda>x. get_numeric_value (snd x) = spec_max_bid ?bs)
                    (sorted_bids_of ?bs))"
  have ne: "?bs \<noteq> []" using assms(1) by auto
  note t = tied_list[OF ne assms(2)]
  have len: "1 < length ?tied" using assms(3) t(4) by simp
  have "determine_winner a
                = (if tie_handling_method a = ''split'' then TIE_SPLIT else TIE_CARRY_FORWARD,
                   None, Some ?tied)"
    using len by (simp only: determine_winner_eq[OF assms(1)] Let_def if_True)
  with t(1,2) show ?thesis by blast
qed

lemma several_resolve:
  assumes "2 \<le> length (bids a)" and "distinct (map fst (bids a))"
    and "2 \<le> card (spec_tied (bids a))" and "resolve_auction a = Inr r"
  shows "ar_winner r = None
     \<and> (ar_result_type r = RT TIE_SPLIT \<or> ar_result_type r = RT TIE_CARRY_FORWARD)
     \<and> (\<exists>tied. ar_tied_players r = Some tied \<and> set tied = spec_tied (bids a))"
proof -
  have ne: "bids a \<noteq> []" using assms(1) by auto
  from several_tied[OF assms(1,2,3)] obtain tied where
    t: "set tied = spec_tied (bids a)"
    "determine_winner a
       = (if tie_handling_method a = ''split'' then TIE_SPLIT else TIE_CARRY_FORWARD,
          None, Some tied)" by blast
  show ?thesis
    using assms(4) ne t
    by (auto simp: resolve_auction_def Let_def split: if_splits option.splits)
qed

lemma nth_map_eq: "map f xs = map f ys \<Longrightarrow> j < length xs \<Longrightarrow> f (xs ! j) = f (ys ! j)"
  by (metis length_map nth_map)

lemma round_single_winner:
  assumes pr: "play_round mk g0 = Inr (RoundDict rr, g1)" and two: "2 \<le> length (rr_bids rr)"
  shows "\<exists>c. rr_diamond_card rr = Some c \<and> fst (get_auction_card g0) = Some c
     \<and> deck g1 = deck (snd (get_auction_card g0))
     \<and> (card (spec_tied (rr_bids rr)) = 1 \<longrightarrow>
          (\<exists>w. spec_tied (rr_bids rr) = {w} \<and> rr_winner rr = Some w
             \<and> w < length (players g0)
             \<and> won_cards (players g1 ! w) = won_cards (players g0 ! w) @ [c]
             \<and> (\<forall>j<length (players g0). j \<noteq> w \<longrightarrow>
                   won_cards (players g1 ! j) = won_cards (players g0 ! j))
             \<and> carry_forward_diamonds g1 = carry_forward_diamonds (snd (get_auction_card g0))))
     \<and> (2 \<le> card (spec_tied (rr_bids rr)) \<longrightarrow>
          rr_winner rr = None
          \<and> (\<exists>res tied. rr_result rr = Some res
                \<and> (ar_result_type res = RT TIE_SPLIT \<or> ar_result_type res = RT TIE_CARRY_FORWARD)
                \<and> ar_tied_players res = Some tied \<and> set tied = spec_tied (rr_bids rr)))"
proof (cases g0 rule: play_round_cases)
  case over
  with pr show ?thesis by (simp add: play_round_def)
next
  case idle
  from play_round_idle[OF idle, of mk] pr two show ?thesis
    by (auto simp: fresh_result_def)
next
  case (live c g2)
  let ?g = "g2\<lparr>round_number := round_number g0 + 1\<rparr>"
  let ?rr0 = "fresh_result (round_number g0 + 1)"
  let ?a = "(start_auction (auction ?g) c (round_number ?g))\<lparr>bids := round_bids mk ?g c\<rparr>"
  let ?g4 = "collect_bids mk (?g\<lparr>auction := start_auction (auction ?g) c (round_number ?g)\<rparr>)"
  have ra: "run_auction mk ?g ?rr0 c = Inr (RoundDict rr, g1)"
    using play_round_live[OF live, of mk] pr by simp
  have pk: "players ?g = players g0" using get_auction_card_keeps[OF live(3)] by simp
  obtain res ps rr2 g'' where
    h: "run_auction mk ?g ?rr0 c = Inr (RoundDict rr2, g'')"
       "resolve_auction ?a = Inr res"
       "process_auction_results ?g4 res = Inr (?g4\<lparr>players := ps\<rparr>)"
    and lp: "length ps = length (players ?g)"
    and rd: "rr_diamond_card rr2 = Some c"
    and rb: "rr_bids rr2 = round_bids mk ?g c"
    and rs: "rr_result rr2 = Some res"
    and pl: "players g'' = remove_each ps (round_bids mk ?g c)"
    and dk: "deck g'' = deck ?g"
    and cf: "carry_forward_diamonds g'' =
       (if ar_carry_forward res then carry_forward_diamonds ?g @ [c]
        else carry_forward_diamonds ?g)"
    and dc: "ar_diamond_card res = Some c"
    and rw: "rr_winner rr2 = (if ar_winner res \<noteq> None then ar_winner res else rr_winner ?rr0)"
    by (rule run_auction_effect[of mk ?g ?rr0 c])
  from ra h(1) have eq: "rr2 = rr" "g'' = g1" by simp_all
  have ba: "bids ?a = rr_bids rr" using rb eq by simp
  have a2: "2 \<le> length (bids ?a)" using two ba by simp
  have ad: "distinct (map fst (bids ?a))" using round_bids_distinct[of mk ?g c] by simp
  have acd: "current_diamond ?a = Some c" by (simp add: start_auction_def)
  have single: "\<exists>w. spec_tied (rr_bids rr) = {w} \<and> rr_winner rr = Some w
             \<and> w < length (players g0)
             \<and> won_cards (players g1 ! w) = won_cards (players g0 ! w) @ [c]
             \<and> (\<forall>j<length (players g0). j \<noteq> w \<longrightarrow>
                   won_cards (players g1 ! j) = won_cards (players g0 ! j))
             \<and> carry_forward_diamonds g1 = carry_forward_diamonds (snd (get_auction_card g0))"
    if one: "card (spec_tied (rr_bids rr)) = 1"
  proof -
    let ?w = "fst (sorted_bids_of (bids ?a) ! 0)"
    have c1: "card (spec_tied (bids ?a)) = 1" using one ba by simp
    note st = single_top[OF a2 ad c1]
    from single_resolve[OF a2 ad c1 acd] h(2)
    have res: "ar_winner res = Some ?w" "ar_result_type res = RT WINNER_DETERMINED"
      "\<not> ar_carry_forward res" by auto
    have wl: "?w < length (players g0)"
      using st(2) round_bids_keys[of mk ?g c] pk by auto
    from process_winner[OF dc res(2) res(1), of ?g4] h(3)
    have "?g4\<lparr>players := ps\<rparr>
        = ?g4\<lparr>players := (players ?g4)[?w := add_won_card (players ?g4 ! ?w) c]\<rparr>"
      by simp
    then have "players (?g4\<lparr>players := ps\<rparr>)
        = players (?g4\<lparr>players := (players ?g4)[?w := add_won_card (players ?g4 ! ?w) c]\<rparr>)"
      by (rule arg_cong)
    then have ps: "ps = (players g0)[?w := add_won_card (players g0 ! ?w) c]"
      using pk by (simp add: collect_bids_fields)
    have won: "won_cards (players g1 ! j) = won_cards (ps ! j)" if "j < length (players g0)" for j
    proof -
      have "j < length (remove_each ps (round_bids mk ?g c))"
        using that lp pk by (simp add: remove_each_length)
      from nth_map_eq[OF remove_each_won this] pl eq show ?thesis by simp
    qed
    have w1: "won_cards (players g1 ! ?w) = won_cards (players g0 ! ?w) @ [c]"
      using won[OF wl] wl by (simp add: ps add_won_card_def)
    have w2: "\<forall>j<length (players g0). j \<noteq> ?w \<longrightarrow>
                   won_cards (players g1 ! j) = won_cards (players g0 ! j)"
      using won by (simp add: ps)
    have "rr_winner rr = Some ?w" using rw eq res(1) by simp
    moreover have "carry_forward_diamonds g1 = carry_forward_diamonds (snd (get_auction_card g0))"
      using cf eq res(3) live(3) by simp
    moreover have "spec_tied (rr_bids rr) = {?w}" using st(1) ba by simp
    ultimately show ?thesis using wl w1 w2 by blast
  qed
  have tie: "rr_winner rr = None
          \<and> (\<exists>res tied. rr_result rr = Some res
                \<and> (ar_result_type res = RT TIE_SPLIT \<or> ar_result_type res = RT TIE_CARRY_FORWARD)
                \<and> ar_tied_players res = Some tied \<and> set tied = spec_tied (rr_bids rr))"
    if many: "2 \<le> card (spec_tied (rr_bids rr))"
  proof -
    have c2: "2 \<le> card (spec_tied (bids ?a))" using many ba by simp
    from several_resolve[OF a2 ad c2 h(2)] obtain tied where
      t: "ar_winner res = None"
      "ar_result_type res = RT TIE_SPLIT \<or> ar_result_type res = RT TIE_CARRY_FORWARD"
      "ar_tied_players res = Some tied" "set tied = spec_tied (bids ?a)" by blast
    have "rr_winner rr = None" using rw eq t(1) by (simp add: fresh_result_def)
    with t rs eq ba show ?thesis by auto
  qed
  have "rr_diamond_card rr = Some c" using rd eq by simp
  moreover have "fst (get_auction_card g0) = Some c" using live(3) by simp
  moreover have "deck g1 = deck (snd (get_auction_card g0))" using dk eq live(3) by simp
  ultimately show ?thesis using single tie by blast
qed

text \<open>
  Claim C4. For a bid map with at least two bids (its keys pairwise different, as in every
  dictionary, and each the position of a player of the game), resolution works with the
  maximum bid value and the set of all participants whose bid value, the rank value alone,
  is that maximum. That set is never empty. When it has one member, \<^verbatim>\<open>determine_winner\<close>
  reports that participant as the winner, and \<^verbatim>\<open>_process_auction_results\<close> appends the
  revealed card to the end of that participant's won cards and changes nothing else: the
  winner's hand and every other player are as before. When it has two or more members the
  outcome is a tie (split or carry-forward, by the tie policy) over exactly that set. The
  same holds of a whole round of \<^verbatim>\<open>play_round\<close> that records two or more bids: the
  revealed card is the one taken from the supply; with a single highest bidder the round
  names that player the winner, the winner's won cards are the old ones followed by the
  revealed card, the won cards of everybody else are unchanged and the card is in neither
  the pile nor the carry-forward list; with several highest bidders the round has no winner
  and its result is a tie over exactly those bidders.
\<close>

theorem determine_winner_tie_break:
  assumes "2 \<le> length (bids a)" and "distinct (map fst (bids a))"
    and "current_diamond a = Some d"
    and "\<forall>k\<in>fst ` set (bids a). k < length (players g)"
  shows "1 \<le> card (spec_tied (bids a))
    \<and> (card (spec_tied (bids a)) = 1 \<longrightarrow>
         (\<exists>w. spec_tied (bids a) = {w} \<and> w < length (players g)
            \<and> determine_winner a = (WINNER_DETERMINED, Some w, Some [w])
            \<and> (\<exists>r g'. resolve_auction a = Inr r \<and> ar_result_type r = RT WINNER_DETERMINED
                   \<and> ar_winner r = Some w \<and> ar_diamond_awarded r
                   \<and> ar_diamond_card r = Some d
                   \<and> process_auction_results g r = Inr g'
                   \<and> g' = g\<lparr>players := (players g)[w := (players g ! w)
                                \<lparr>won_cards := won_cards (players g ! w) @ [d]\<rparr>]\<rparr>
                   \<and> won_cards (players g' ! w) = won_cards (players g ! w) @ [d]
                   \<and> hand (players g' ! w) = hand (players g ! w)
                   \<and> (\<forall>j<length (players g). j \<noteq> w \<longrightarrow> players g' ! j = players g ! j))))
    \<and> (2 \<le> card (spec_tied (bids a)) \<longrightarrow>
         (\<exists>tied. set tied = spec_tied (bids a) \<and> distinct tied
            \<and> determine_winner a
                = (if tie_handling_method a = ''split'' then TIE_SPLIT else TIE_CARRY_FORWARD,
                   None, Some tied)))
    \<and> (play_round mk g0 = Inr (RoundDict rr, g1) \<and> 2 \<le> length (rr_bids rr) \<longrightarrow>
         (\<exists>c. rr_diamond_card rr = Some c \<and> fst (get_auction_card g0) = Some c
            \<and> deck g1 = deck (snd (get_auction_card g0))
            \<and> (card (spec_tied (rr_bids rr)) = 1 \<longrightarrow>
                 (\<exists>w. spec_tied (rr_bids rr) = {w} \<and> rr_winner rr = Some w
                    \<and> w < length (players g0)
                    \<and> won_cards (players g1 ! w) = won_cards (players g0 ! w) @ [c]
                    \<and> (\<forall>j<length (players g0). j \<noteq> w \<longrightarrow>
                          won_cards (players g1 ! j) = won_cards (players g0 ! j))
                    \<and> carry_forward_diamonds g1
                        = carry_forward_diamonds (snd (get_auction_card g0))))
            \<and> (2 \<le> card (spec_tied (rr_bids rr)) \<longrightarrow>
                 rr_winner rr = None
                 \<and> (\<exists>res tied. rr_result rr = Some res
                       \<and> (ar_result_type res = RT TIE_SPLIT
                            \<or> ar_result_type res = RT TIE_CARRY_FORWARD)
                       \<and> ar_tied_players res = Some tied
                       \<and> set tied = spec_tied (rr_bids rr)))))"
proof -
  let ?bs = "bids a"
  let ?top = "fst (sorted_bids_of ?bs ! 0)"
  have ne: "?bs \<noteq> []" using assms(1) by auto
  note t = tied_list[OF ne assms(2)]
  have c1: "1 \<le> card (spec_tied ?bs)" using t(3,4) by (metis One_nat_def Suc_leI length_pos_if_in_set)
  have c2: "card (spec_tied ?bs) = 1 \<longrightarrow>
         (\<exists>w. spec_tied ?bs = {w} \<and> w < length (players g)
            \<and> determine_winner a = (WINNER_DETERMINED, Some w, Some [w])
            \<and> (\<exists>r g'. resolve_auction a = Inr r \<and> ar_result_type r = RT WINNER_DETERMINED
                   \<and> ar_winner r = Some w \<and> ar_diamond_awarded r
                   \<and> ar_diamond_card r = Some d
                   \<and> process_auction_results g r = Inr g'
                   \<and> g' = g\<lparr>players := (players g)[w := (players g ! w)
                                \<lparr>won_cards := won_cards (players g ! w) @ [d]\<rparr>]\<rparr>
                   \<and> won_cards (players g' ! w) = won_cards (players g ! w) @ [d]
                   \<and> hand (players g' ! w) = hand (players g ! w)
                   \<and> (\<forall>j<length (players g). j \<noteq> w \<longrightarrow> players g' ! j = players g ! j)))"
  proof
    assume one: "card (spec_tied ?bs) = 1"
    note st = single_top[OF assms(1,2) one]
    note ra = single_resolve[OF assms(1,2) one assms(3)]
    have wl: "?top < length (players g)" using st(2) assms(4) by blast
    let ?r = "\<lparr>ar_diamond_card = Some d, ar_bids = ?bs, ar_result_type = RT WINNER_DETERMINED,
             ar_winner = Some ?top, ar_tied_players = Some [?top],
             ar_diamond_awarded = True, ar_carry_forward = False, ar_split_values = []\<rparr>"
    let ?g' = "g\<lparr>players := (players g)[?top := (players g ! ?top)
                                \<lparr>won_cards := won_cards (players g ! ?top) @ [d]\<rparr>]\<rparr>"
    have pr: "process_auction_results g ?r = Inr ?g'"
      by (simp add: process_auction_results_def award_def add_won_card_def)
    have f: "won_cards (players ?g' ! ?top) = won_cards (players g ! ?top) @ [d]"
      "hand (players ?g' ! ?top) = hand (players g ! ?top)"
      "\<forall>j<length (players g). j \<noteq> ?top \<longrightarrow> players ?g' ! j = players g ! j"
      using wl by simp_all
    show "\<exists>w. spec_tied ?bs = {w} \<and> w < length (players g)
            \<and> determine_winner a = (WINNER_DETERMINED, Some w, Some [w])
            \<and> (\<exists>r g'. resolve_auction a = Inr r \<and> ar_result_type r = RT WINNER_DETERMINED
                   \<and> ar_winner r = Some w \<and> ar_diamond_awarded r
                   \<and> ar_diamond_card r = Some d
                   \<and> process_auction_results g r = Inr g'
                   \<and> g' = g\<lparr>players := (players g)[w := (players g ! w)
                                \<lparr>won_cards := won_cards (players g ! w) @ [d]\<rparr>]\<rparr>
                   \<and> won_cards (players g' ! w) = won_cards (players g ! w) @ [d]
                   \<and> hand (players g' ! w) = hand (players g ! w)
                   \<and> (\<forall>j<length (players g). j \<noteq> w \<longrightarrow> players g' ! j = players g ! j))"
      apply (rule exI[of _ ?top])
      apply (intro conjI st(1) wl st(3))
      apply (rule exI[of _ ?r])
      apply (rule exI[of _ ?g'])
      using ra pr f apply simp
      done
  qed
  have c3: "2 \<le> card (spec_tied ?bs) \<longrightarrow>
         (\<exists>tied. set tied = spec_tied ?bs \<and> distinct tied
            \<and> determine_winner a
                = (if tie_handling_method a = ''split'' then TIE_SPLIT else TIE_CARRY_FORWARD,
                   None, Some tied))"
    using several_tied[OF assms(1,2)] by blast
  have c4: "play_round mk g0 = Inr (RoundDict rr, g1) \<and> 2 \<le> length (rr_bids rr) \<longrightarrow>
         (\<exists>c. rr_diamond_card rr = Some c \<and> fst (get_auction_card g0) = Some c
            \<and> deck g1 = deck (snd (get_auction_card g0))
            \<and> (card (spec_tied (rr_bids rr)) = 1 \<longrightarrow>
                 (\<exists>w. spec_tied (rr_bids rr) = {w} \<and> rr_winner rr = Some w
                    \<and> w < length (players g0)
                    \<and> won_cards (players g1 ! w) = won_cards (players g0 ! w) @ [c]
                    \<and> (\<forall>j<length (players g0). j \<noteq> w \<longrightarrow>
                          won_cards (players g1 ! j) = won_cards (players g0 ! j))
                    \<and> carry_forward_diamonds g1
                        = carry_forward_diamonds (snd (get_auction_card g0))))
            \<and> (2 \<le> card (spec_tied (rr_bids rr)) \<longrightarrow>
                 rr_winner rr = None
                 \<and> (\<exists>res tied. rr_result rr = Some res
                       \<and> (ar_result_type res = RT TIE_SPLIT
                            \<or> ar_result_type res = RT TIE_CARRY_FORWARD)
                       \<and> ar_tied_players res = Some tied
                       \<and> set tied = spec_tied (rr_bids rr))))"
    using round_single_winner[of mk g0 rr g1] by blast
  from c1 c2 c3 c4 show ?thesis by blast
qed

theorem determine_winner_tie_break_witness:
  "2 \<le> length (bids king_queen) \<and> distinct (map fst (bids king_queen))
   \<and> current_diamond king_queen = Some \<lparr>suit = DIAMONDS, rank = ACE\<rparr>
   \<and> map fst (bids king_queen) = [0, 1] \<and> length (players sample_game) = 2
   \<and> card (spec_tied (bids king_queen)) = 1
   \<and> determine_winner king_queen = (WINNER_DETERMINED, Some 1, Some [1])
   \<and> won_cards (players sample_game ! 1) = []
   \<and> (\<exists>r g'. resolve_auction king_queen = Inr r \<and> ar_winner r = Some 1
         \<and> process_auction_results sample_game r = Inr g'
         \<and> won_cards (players g' ! 1) = [\<lparr>suit = DIAMONDS, rank = ACE\<rparr>]
         \<and> players g' ! 0 = players sample_game ! 0)
   \<and> 2 \<le> length (bids king_king) \<and> distinct (map fst (bids king_king))
   \<and> current_diamond king_king = Some \<lparr>suit = DIAMONDS, rank = ACE\<rparr>
   \<and> card (spec_tied (bids king_king)) = 2
   \<and> (\<exists>tied. set tied = {0, 1} \<and> determine_winner king_king = (TIE_SPLIT, None, Some tied))
   \<and> play_round bid_first sample_game = Inr (RoundDict first_round, first_after)
   \<and> 2 \<le> length (rr_bids first_round)
   \<and> card (spec_tied (rr_bids first_round)) = 1
   \<and> rr_winner first_round = Some 0
   \<and> won_cards (players sample_game ! 0) = []
   \<and> won_cards (players first_after ! 0) = [\<lparr>suit = DIAMONDS, rank = ACE\<rparr>]
   \<and> won_cards (players first_after ! 1) = []"
proof -
  have h: "2 \<le> length (bids king_queen)" "distinct (map fst (bids king_queen))"
    "current_diamond king_queen = Some \<lparr>suit = DIAMONDS, rank = ACE\<rparr>"
    "\<forall>k\<in>fst ` set (bids king_queen). k < length (players sample_game)"
    by (simp_all add: king_queen_def new_auction_def sample_game_def new_game_def)
  have t: "spec_tied (bids king_queen) = {1}"
    by (simp add: spec_tied_def spec_max_bid_def king_queen_def new_auction_def
      get_numeric_value_def card_value_def)
  have h2: "2 \<le> length (bids king_king)" "distinct (map fst (bids king_king))"
    "current_diamond king_king = Some \<lparr>suit = DIAMONDS, rank = ACE\<rparr>"
    "\<forall>k\<in>fst ` set (bids king_king). k < length (players sample_game)"
    by (simp_all add: king_king_def new_auction_def sample_game_def new_game_def)
  have t2: "spec_tied (bids king_king) = {0, 1}"
    by (simp add: spec_tied_def spec_max_bid_def king_king_def new_auction_def
      get_numeric_value_def card_value_def)
  have m: "tie_handling_method king_king = ''split''"
    by (simp add: king_king_def new_auction_def)
  have p: "play_round bid_first sample_game = Inr (RoundDict first_round, first_after)"
    by (rule first_round_value)
  have r: "2 \<le> length (rr_bids first_round)" "spec_tied (rr_bids first_round) = {0}"
    by (simp_all add: first_round_def spec_tied_def spec_max_bid_def
        get_numeric_value_def card_value_def)
  have w0: "won_cards (players sample_game ! 1) = []" "won_cards (players sample_game ! 0) = []"
    "length (players sample_game) = 2"
    by (simp_all add: sample_game_def new_game_def alice_def bob_def)
  note k1 = determine_winner_tie_break[OF h, where mk=bid_first and ?g0.0=sample_game
      and rr=first_round and ?g1.0=first_after]
  note k2 = determine_winner_tie_break[OF h2, where mk=bid_first and ?g0.0=sample_game
      and rr=first_round and ?g1.0=first_after]
  have c1: "card (spec_tied (bids king_queen)) = 1" "card (spec_tied (bids king_king)) = 2"
    "card (spec_tied (rr_bids first_round)) = 1"
    by (simp_all add: t t2 r)
  note single = k1[THEN conjunct2, THEN conjunct1, rule_format, OF c1(1)]
  note several = k2[THEN conjunct2, THEN conjunct2, THEN conjunct1, rule_format]
  note round = k1[THEN conjunct2, THEN conjunct2, THEN conjunct2, rule_format, OF conjI[OF p r(1)]]
  from single obtain w r0 g' where s:
    "spec_tied (bids king_queen) = {w}"
    "determine_winner king_queen = (WINNER_DETERMINED, Some w, Some [w])"
    "resolve_auction king_queen = Inr r0" "ar_winner r0 = Some w"
    "process_auction_results sample_game r0 = Inr g'"
    "won_cards (players g' ! w)
       = won_cards (players sample_game ! w) @ [\<lparr>suit = DIAMONDS, rank = ACE\<rparr>]"
    "\<forall>j<length (players sample_game). j \<noteq> w \<longrightarrow> players g' ! j = players sample_game ! j"
    by blast
  have w: "w = 1" using s(1) t by simp
  have a1: "determine_winner king_queen = (WINNER_DETERMINED, Some 1, Some [1])"
    using s(2) w by simp
  have a2: "\<exists>r g'. resolve_auction king_queen = Inr r \<and> ar_winner r = Some 1
         \<and> process_auction_results sample_game r = Inr g'
         \<and> won_cards (players g' ! 1) = [\<lparr>suit = DIAMONDS, rank = ACE\<rparr>]
         \<and> players g' ! 0 = players sample_game ! 0"
    using s(3,4,5,6,7) w w0 by (intro exI[of _ r0] exI[of _ g']) simp
  have a3: "\<exists>tied. set tied = {0, 1} \<and> determine_winner king_king = (TIE_SPLIT, None, Some tied)"
    using several t2 m c1(2) by auto
  from round obtain c where rc: "rr_diamond_card first_round = Some c"
    and rs: "card (spec_tied (rr_bids first_round)) = 1 \<longrightarrow>
                 (\<exists>w. spec_tied (rr_bids first_round) = {w} \<and> rr_winner first_round = Some w
                    \<and> w < length (players sample_game)
                    \<and> won_cards (players first_after ! w) = won_cards (players sample_game ! w) @ [c]
                    \<and> (\<forall>j<length (players sample_game). j \<noteq> w \<longrightarrow>
                          won_cards (players first_after ! j) = won_cards (players sample_game ! j))
                    \<and> carry_forward_diamonds first_after
                        = carry_forward_diamonds (snd (get_auction_card sample_game)))"
    by blast
  from rs c1(3) obtain v where v: "spec_tied (rr_bids first_round) = {v}"
    "rr_winner first_round = Some v"
    "won_cards (players first_after ! v) = won_cards (players sample_game ! v) @ [c]"
    "\<forall>j<length (players sample_game). j \<noteq> v \<longrightarrow>
        won_cards (players first_after ! j) = won_cards (players sample_game ! j)"
    by blast
  have v0: "v = 0" using v(1) r(2) by simp
  have cc: "c = \<lparr>suit = DIAMONDS, rank = ACE\<rparr>" using rc by (simp add: first_round_def)
  have a4: "rr_winner first_round = Some 0
      \<and> won_cards (players first_after ! 0) = [\<lparr>suit = DIAMONDS, rank = ACE\<rparr>]
      \<and> won_cards (players first_after ! 1) = []"
    using v(2,3,4) v0 cc w0 by simp
  have ks: "map fst (bids king_queen) = [0, 1]"
    by (simp add: king_queen_def new_auction_def)
  from h(1,2,3) ks c1 a1 w0 a2 h2(1,2,3) a3 p r(1) a4 show ?thesis by simp
qed

section \<open>Card accounting of a round\<close>






end
